theory Spec2Isabelle
  imports Main "HOL-Library.Sublist" "HOL-Library.Char_ord" "HOL-Library.List_Lexorder"
begin

section \<open>Python strings\<close>

text \<open>
  A Python \<open>str\<close> is modelled as a \<open>string\<close> whose characters are read as ASCII code
  points. Case mapping, whitespace and line boundaries follow Python on the code points
  below 128; a character from 128 on has no case, is no whitespace and ends no line.
  \<open>s.startswith(p)\<close> is \<open>prefix p s\<close>, \<open>s.endswith(p)\<close> is \<open>suffix p s\<close> and \<open>p in s\<close> is
  \<open>sublist p s\<close>.
\<close>

definition ascii_uppercase :: string where
  "ascii_uppercase = ''ABCDEFGHIJKLMNOPQRSTUVWXYZ''"

definition ascii_lowercase :: string where
  "ascii_lowercase = ''abcdefghijklmnopqrstuvwxyz''"

definition lower_char :: "char \<Rightarrow> char" where
  "lower_char c =
     (case map_of (zip ascii_uppercase ascii_lowercase) c of Some d \<Rightarrow> d | None \<Rightarrow> c)"

definition upper_char :: "char \<Rightarrow> char" where
  "upper_char c =
     (case map_of (zip ascii_lowercase ascii_uppercase) c of Some d \<Rightarrow> d | None \<Rightarrow> c)"

definition lower :: "string \<Rightarrow> string" where
  "lower s = map lower_char s"

definition upper :: "string \<Rightarrow> string" where
  "upper s = map upper_char s"

text \<open>\<open>str.isspace\<close> on ASCII: tab to carriage return, the four separators and space.\<close>

definition is_space :: "char \<Rightarrow> bool" where
  "is_space c =
     (let n = (of_char c :: nat) in (9 \<le> n \<and> n \<le> 13) \<or> (28 \<le> n \<and> n \<le> 32))"

definition lstrip :: "string \<Rightarrow> string" where
  "lstrip s = dropWhile is_space s"

definition rstrip :: "string \<Rightarrow> string" where
  "rstrip s = rev (dropWhile is_space (rev s))"

definition strip :: "string \<Rightarrow> string" where
  "strip s = rstrip (lstrip s)"

text \<open>\<open>sep.join(xs)\<close>.\<close>

fun join :: "string \<Rightarrow> string list \<Rightarrow> string" where
  "join sep [] = []"
| "join sep [x] = x"
| "join sep (x # y # ys) = x @ sep @ join sep (y # ys)"

text \<open>
  \<open>s.replace(old, new)\<close>: the occurrences of \<open>old\<close> are found from the left and do not
  overlap; the text after a replaced occurrence is scanned on, the replacement is not.
\<close>

function replace_from :: "string \<Rightarrow> string \<Rightarrow> string \<Rightarrow> string" where
  "replace_from old new [] = []"
| "replace_from old new (c # cs) =
     (if old \<noteq> [] \<and> prefix old (c # cs)
      then new @ replace_from old new (drop (length old) (c # cs))
      else c # replace_from old new cs)"
  by pat_completeness auto
termination
  by (relation "measure (\<lambda>(old, new, s). length s)") auto

definition replace :: "string \<Rightarrow> string \<Rightarrow> string \<Rightarrow> string" where
  "replace s old new =
     (if old = [] then new @ concat (map (\<lambda>c. c # new) s) else replace_from old new s)"

section \<open>Connector names\<close>

text \<open>
  \<open>utils.remove_strict_encrypt_suffix\<close>: the loop over the two suffixes returns at the
  first one the name ends with.
\<close>

definition strict_encrypt_suffixes :: "string list" where
  "strict_encrypt_suffixes = [''-strict-encrypt'', ''-secure'']"

fun remove_suffixes :: "string list \<Rightarrow> string \<Rightarrow> string" where
  "remove_suffixes [] connector_technical_name = connector_technical_name"
| "remove_suffixes (sfx # rest) connector_technical_name =
     (if suffix sfx connector_technical_name
      then replace connector_technical_name sfx []
      else remove_suffixes rest connector_technical_name)"

definition remove_strict_encrypt_suffix :: "string \<Rightarrow> string" where
  "remove_strict_encrypt_suffix connector_technical_name =
     remove_suffixes strict_encrypt_suffixes connector_technical_name"

section \<open>More of the string library\<close>

text \<open>\<open>s.split(c)\<close> for a separator of one character: never the empty list.\<close>

fun split_on :: "char \<Rightarrow> string \<Rightarrow> string list" where
  "split_on c [] = [[]]"
| "split_on c (x # xs) =
     (if x = c then [] # split_on c xs
      else (case split_on c xs of [] \<Rightarrow> [[x]] | l # ls \<Rightarrow> (x # l) # ls))"

text \<open>
  \<open>str.splitlines()\<close>: a line ends at line feed, carriage return (with a line feed
  that follows it), vertical tab, form feed and the file, group and record separators;
  the terminators are dropped and a terminator at the very end opens no further line.
\<close>

definition is_linebreak :: "char \<Rightarrow> bool" where
  "is_linebreak c =
     (let n = (of_char c :: nat) in (10 \<le> n \<and> n \<le> 13) \<or> (28 \<le> n \<and> n \<le> 30))"

fun splitlines :: "string \<Rightarrow> string list" where
  "splitlines [] = []"
| "splitlines (c # cs) =
     (if c = CHR 0x0D then
        (case cs of
           [] \<Rightarrow> [[]]
         | d # ds \<Rightarrow> if d = CHR 0x0A then [] # splitlines ds else [] # splitlines (d # ds))
      else if is_linebreak c then [] # splitlines cs
      else (case splitlines cs of [] \<Rightarrow> [[c]] | l # ls \<Rightarrow> (c # l) # ls))"

text \<open>
  Text mode with universal newlines, as \<open>open(path)\<close> and \<open>Path.read_text()\<close> read a
  file: a carriage return, alone or before a line feed, is read as one line feed.
\<close>

fun universal_newlines :: "string \<Rightarrow> string" where
  "universal_newlines [] = []"
| "universal_newlines (c # cs) =
     (if c = CHR 0x0D then
        (case cs of
           [] \<Rightarrow> [CHR 0x0A]
         | d # ds \<Rightarrow>
             if d = CHR 0x0A then CHR 0x0A # universal_newlines ds
             else CHR 0x0A # universal_newlines (d # ds))
      else c # universal_newlines cs)"

text \<open>Iterating over an open text file: the lines, each with its line feed kept.\<close>

fun readlines :: "string \<Rightarrow> string list" where
  "readlines [] = []"
| "readlines (c # cs) =
     (if c = CHR 0x0A then [c] # readlines cs
      else (case readlines cs of [] \<Rightarrow> [[c]] | l # ls \<Rightarrow> (c # l) # ls))"

text \<open>\<open>str(n)\<close> for an integer.\<close>

definition digit_char :: "nat \<Rightarrow> char" where
  "digit_char d = ''0123456789'' ! d"

fun str_nat :: "nat \<Rightarrow> string" where
  "str_nat n = (if n < 10 then [digit_char n] else str_nat (n div 10) @ [digit_char (n mod 10)])"

declare str_nat.simps [simp del]

definition str_int :: "int \<Rightarrow> string" where
  "str_int i = (if i < 0 then CHR ''-'' # str_nat (nat (- i)) else str_nat (nat i))"

definition is_digit :: "char \<Rightarrow> bool" where
  "is_digit c = (c \<in> set ''0123456789'')"

definition digit_value :: "char \<Rightarrow> nat" where
  "digit_value c = of_char c - 48"

definition nat_of_digits :: "string \<Rightarrow> nat" where
  "nat_of_digits s = foldl (\<lambda>a c. 10 * a + digit_value c) 0 s"

text \<open>
  \<open>repr(s)\<close> of a string: single quotes, unless the string holds a single quote and no
  double quote; the quote in use and the backslash are escaped, tab, line feed and
  carriage return are written \<open>\t\<close>, \<open>\n\<close>, \<open>\r\<close>, and the other control characters
  as \<open>\xNN\<close>.
\<close>

definition hex_digit :: "nat \<Rightarrow> char" where
  "hex_digit d = ''0123456789abcdef'' ! d"

definition repr_char :: "char \<Rightarrow> char \<Rightarrow> string" where
  "repr_char quote c =
     (let n = (of_char c :: nat) in
      if c = quote \<or> c = CHR 0x5C then [CHR 0x5C, c]
      else if c = CHR 0x09 then [CHR 0x5C, CHR ''t'']
      else if c = CHR 0x0A then [CHR 0x5C, CHR ''n'']
      else if c = CHR 0x0D then [CHR 0x5C, CHR ''r'']
      else if n < 32 \<or> n = 127 then [CHR 0x5C, CHR ''x'', hex_digit (n div 16), hex_digit (n mod 16)]
      else [c])"

definition repr_str :: "string \<Rightarrow> string" where
  "repr_str s =
     (let quote = (if CHR 0x27 \<in> set s \<and> CHR 0x22 \<notin> set s then CHR 0x22 else CHR 0x27)
      in quote # concat (map (repr_char quote) s) @ [quote])"

definition repr_str_list :: "string list \<Rightarrow> string" where
  "repr_str_list xs = ''['' @ join '', '' (map repr_str xs) @ '']''"

text \<open>
  \<open>textwrap.dedent\<close>: lines of blanks and tabs only are emptied, the margin is the
  longest leading run of blanks and tabs common to the lines left with any other
  character, and it is removed from the lines that start with it.
\<close>

definition is_blank :: "char \<Rightarrow> bool" where
  "is_blank c = (c = CHR '' '' \<or> c = CHR 0x09)"

fun common_prefix :: "string \<Rightarrow> string \<Rightarrow> string" where
  "common_prefix (x # xs) (y # ys) = (if x = y then x # common_prefix xs ys else [])"
| "common_prefix xs ys = []"

definition common_margin :: "string \<Rightarrow> string \<Rightarrow> string" where
  "common_margin margin indent =
     (if prefix margin indent then margin
      else if prefix indent margin then indent
      else common_prefix margin indent)"

definition dedent :: "string \<Rightarrow> string" where
  "dedent text =
     (let lines = map (\<lambda>l. if list_all is_blank l then [] else l) (split_on (CHR 0x0A) text);
          indents = map (takeWhile is_blank) (filter (\<lambda>l. \<not> list_all is_blank l) lines);
          margin = (case indents of [] \<Rightarrow> [] | i # rest \<Rightarrow> foldl common_margin i rest)
      in join [CHR 0x0A]
           (map (\<lambda>l. if margin \<noteq> [] \<and> prefix margin l then drop (length margin) l else l) lines))"

section \<open>Paths and the file system\<close>

text \<open>
  A \<open>pathlib.Path\<close> is the list of its parts, \<open>p / name\<close> is \<open>p @ [name]\<close> and \<open>str(p)\<close>
  joins the parts with a slash. The file system is the list of its paths, in the order
  in which a directory walk meets them, each with what is found there. A file whose
  bytes do not decode is a \<open>BinaryFile\<close>: reading it raises \<open>UnicodeDecodeError\<close>.
\<close>

type_synonym path = "string list"

datatype fsnode = Directory | TextFile string | BinaryFile

type_synonym filesystem = "(path \<times> fsnode) list"

definition str_path :: "path \<Rightarrow> string" where
  "str_path p = join ''/'' p"

definition str_opt_path :: "path option \<Rightarrow> string" where
  "str_opt_path p = (case p of None \<Rightarrow> ''None'' | Some q \<Rightarrow> str_path q)"

definition path_name :: "path \<Rightarrow> string" where
  "path_name p = (if p = [] then [] else last p)"

text \<open>
  \<open>PurePath.suffix\<close>: the last part from its last dot on, when that dot is neither its
  first nor its last character.
\<close>

definition path_suffix :: "path \<Rightarrow> string" where
  "path_suffix p =
     (let nm = path_name p;
          ext = rev (takeWhile (\<lambda>c. c \<noteq> CHR ''.'') (rev nm))
      in if CHR ''.'' \<in> set nm \<and> ext \<noteq> [] \<and> length ext + 1 < length nm
         then CHR ''.'' # ext else [])"

text \<open>
  \<open>fnmatch\<close> for the patterns the checks use: a star stands for any run of characters,
  every other character for itself. \<open>PurePath.match\<close> with a pattern of one part
  matches the last part of the path.
\<close>

fun glob_match :: "string \<Rightarrow> string \<Rightarrow> bool" where
  "glob_match [] s = (s = [])"
| "glob_match (p # ps) [] = (p = CHR ''*'' \<and> glob_match ps [])"
| "glob_match (p # ps) (c # cs) =
     (if p = CHR ''*'' then glob_match ps (c # cs) \<or> glob_match (p # ps) cs
      else p = c \<and> glob_match ps cs)"

definition path_match :: "path \<Rightarrow> string \<Rightarrow> bool" where
  "path_match p pattern = (p \<noteq> [] \<and> glob_match pattern (last p))"

definition path_exists :: "filesystem \<Rightarrow> path \<Rightarrow> bool" where
  "path_exists fs p = (map_of fs p \<noteq> None)"

definition is_file :: "fsnode \<Rightarrow> bool" where
  "is_file n = (n \<noteq> Directory)"

text \<open>\<open>directory.rglob("*")\<close>: every path below the directory.\<close>

definition rglob :: "filesystem \<Rightarrow> path \<Rightarrow> (path \<times> fsnode) list" where
  "rglob fs directory = filter (\<lambda>(p, n). strict_prefix directory p) fs"

datatype error =
    ValueError string
  | TomlDecodeError
  | UnicodeDecodeError
  | AttributeError
  | IndexError
  | KeyError string
  | TypeError
  | FileNotFoundError
  | IsADirectoryError
  | ClickException string
  | ValidatorError

text \<open>
  \<open>except ValueError\<close> also catches the subclasses \<open>toml.TomlDecodeError\<close> and
  \<open>UnicodeDecodeError\<close>.
\<close>

fun is_ValueError :: "error \<Rightarrow> bool" where
  "is_ValueError (ValueError m) = True"
| "is_ValueError TomlDecodeError = True"
| "is_ValueError UnicodeDecodeError = True"
| "is_ValueError e = False"

definition read_text :: "filesystem \<Rightarrow> path \<Rightarrow> error + string" where
  "read_text fs p =
     (case map_of fs p of
        None \<Rightarrow> Inl FileNotFoundError
      | Some Directory \<Rightarrow> Inl IsADirectoryError
      | Some BinaryFile \<Rightarrow> Inl UnicodeDecodeError
      | Some (TextFile s) \<Rightarrow> Inr (universal_newlines s))"

section \<open>Metadata documents\<close>

text \<open>
  A parsed YAML or TOML document. A mapping is the list of its entries in insertion
  order, with keys that are strings; a Python \<open>dict\<close> holds every key once. Floating
  point numbers and dates are not part of the model.
\<close>

datatype yaml =
    YNull
  | YBool bool
  | YInt int
  | YStr string
  | YList "yaml list"
  | YDict "(string \<times> yaml) list"

text \<open>The truth value Python gives a value in \<open>if v\<close> and \<open>not v\<close>.\<close>

fun truthy :: "yaml \<Rightarrow> bool" where
  "truthy YNull = False"
| "truthy (YBool b) = b"
| "truthy (YInt i) = (i \<noteq> 0)"
| "truthy (YStr s) = (s \<noteq> [])"
| "truthy (YList xs) = (xs \<noteq> [])"
| "truthy (YDict d) = (d \<noteq> [])"

fun py_repr :: "yaml \<Rightarrow> string" where
  "py_repr YNull = ''None''"
| "py_repr (YBool b) = (if b then ''True'' else ''False'')"
| "py_repr (YInt i) = str_int i"
| "py_repr (YStr s) = repr_str s"
| "py_repr (YList xs) = ''['' @ join '', '' (map py_repr xs) @ '']''"
| "py_repr (YDict d) =
     ''{'' @ join '', '' (map (\<lambda>kv. repr_str (fst kv) @ '': '' @ py_repr (snd kv)) d) @ ''}''"

text \<open>\<open>str(v)\<close>, which is also how an f-string renders \<open>v\<close>.\<close>

definition py_str :: "yaml \<Rightarrow> string" where
  "py_str v = (case v of YStr s \<Rightarrow> s | _ \<Rightarrow> py_repr v)"

definition str_opt :: "string option \<Rightarrow> string" where
  "str_opt s = (case s of None \<Rightarrow> ''None'' | Some t \<Rightarrow> t)"

text \<open>
  \<open>pydash.get(obj, "a.b.c", default)\<close>, the dotted path given as the list of its keys:
  the value at the path, or the default when a key is missing or a value on the way is
  no mapping.
\<close>

fun get_path :: "yaml \<Rightarrow> string list \<Rightarrow> yaml option" where
  "get_path v [] = Some v"
| "get_path (YDict d) (k # ks) =
     (case map_of d k of None \<Rightarrow> None | Some v \<Rightarrow> get_path v ks)"
| "get_path v (k # ks) = None"

definition get :: "(string \<times> yaml) list option \<Rightarrow> string list \<Rightarrow> yaml \<Rightarrow> yaml" where
  "get obj path_keys dflt =
     (case obj of
        None \<Rightarrow> dflt
      | Some d \<Rightarrow> (case get_path (YDict d) path_keys of None \<Rightarrow> dflt | Some v \<Rightarrow> v))"

text \<open>\<open>obj[key]\<close>: \<open>KeyError\<close> on a mapping without the key, \<open>TypeError\<close> on anything else.\<close>

definition getitem :: "yaml \<Rightarrow> string \<Rightarrow> error + yaml" where
  "getitem v key =
     (case v of
        YDict d \<Rightarrow> (case map_of d key of None \<Rightarrow> Inl (KeyError key) | Some x \<Rightarrow> Inr x)
      | _ \<Rightarrow> Inl TypeError)"

section \<open>Semantic versions\<close>

text \<open>
  \<open>semver.Version.parse\<close>: the version must match
  \<open>major.minor.patch[-prerelease][+build]\<close>; the numbers have no leading zero, the
  prerelease and the build are identifiers over letters, digits and hyphens, separated
  by dots, and a numeric prerelease identifier has no leading zero. The pattern ends in
  \<open>$\<close>, which also matches before one line feed at the very end. Anything else is a
  \<open>ValueError\<close>. Two versions are equal when they agree on all but the build.
\<close>

record Version =
  major :: nat
  minor :: nat
  patch :: nat
  prerelease :: "string option"
  build :: "string option"

definition is_identifier_char :: "char \<Rightarrow> bool" where
  "is_identifier_char c =
     (is_digit c \<or> c \<in> set ascii_uppercase \<or> c \<in> set ascii_lowercase \<or> c = CHR ''-'')"

definition is_numeric_identifier :: "string \<Rightarrow> bool" where
  "is_numeric_identifier s = (s \<noteq> [] \<and> list_all is_digit s \<and> (s = ''0'' \<or> hd s \<noteq> CHR ''0''))"

definition is_build_identifier :: "string \<Rightarrow> bool" where
  "is_build_identifier s = (s \<noteq> [] \<and> list_all is_identifier_char s)"

definition is_prerelease_identifier :: "string \<Rightarrow> bool" where
  "is_prerelease_identifier s =
     (if list_all is_digit s then is_numeric_identifier s else is_build_identifier s)"

definition split_first :: "char \<Rightarrow> string \<Rightarrow> string \<times> string option" where
  "split_first c s =
     (let rest = dropWhile (\<lambda>x. x \<noteq> c) s
      in (takeWhile (\<lambda>x. x \<noteq> c) s, if rest = [] then None else Some (tl rest)))"

definition Version_parse :: "string \<Rightarrow> error + Version" where
  "Version_parse version =
     (let s = (if suffix [CHR 0x0A] version then butlast version else version);
          (core_pre, bld) = split_first (CHR ''+'') s;
          (core, pre) = split_first (CHR ''-'') core_pre;
          parts = split_on (CHR ''.'') core
      in if length parts = 3 \<and> list_all is_numeric_identifier parts
            \<and> (case pre of None \<Rightarrow> True
                | Some p \<Rightarrow> list_all is_prerelease_identifier (split_on (CHR ''.'') p))
            \<and> (case bld of None \<Rightarrow> True
                | Some b \<Rightarrow> list_all is_build_identifier (split_on (CHR ''.'') b))
         then Inr \<lparr>major = nat_of_digits (parts ! 0), minor = nat_of_digits (parts ! 1),
                   patch = nat_of_digits (parts ! 2), prerelease = pre, build = bld\<rparr>
         else Inl (ValueError (version @ '' is not valid SemVer string'')))"

definition Version_eq :: "Version \<Rightarrow> Version \<Rightarrow> bool" where
  "Version_eq a b =
     (major a = major b \<and> minor a = minor b \<and> patch a = patch b \<and> prerelease a = prerelease b)"

definition Version_str :: "Version \<Rightarrow> string" where
  "Version_str v =
     str_nat (major v) @ ''.'' @ str_nat (minor v) @ ''.'' @ str_nat (patch v)
     @ (case prerelease v of None \<Rightarrow> [] | Some p \<Rightarrow> CHR ''-'' # p)
     @ (case build v of None \<Rightarrow> [] | Some b \<Rightarrow> CHR ''+'' # b)"

section \<open>Connectors, checks and results\<close>

text \<open>
  \<open>connector_ops.utils.Connector\<close> is not part of the package: a connector is the
  record of what the checks read from it. \<open>ConnectorLanguage\<close> has the three members the
  package names.
\<close>

datatype ConnectorLanguage = JAVA | LOW_CODE | PYTHON

fun language_value :: "ConnectorLanguage \<Rightarrow> string" where
  "language_value JAVA = ''java''"
| "language_value LOW_CODE = ''low-code''"
| "language_value PYTHON = ''python''"

record Connector =
  technical_name :: string
  name :: string
  name_from_metadata :: "string option"
  language :: ConnectorLanguage
  code_directory :: path
  metadata :: "(string \<times> yaml) list option"
  documentation_file_path :: "path option"
  icon_path :: "path option"
  migration_guide_file_path :: "path option"
  version :: "string option"

text \<open>
  What a check reads besides the connector: the process environment, the file system,
  the TOML parser (\<open>toml\<close>), the metadata validator (\<open>metadata_service\<close>, run on the two
  paths, giving an exit code and its output) and the constructor of \<open>Connector\<close>.
\<close>

record world =
  environ :: "(string \<times> string) list"
  files :: filesystem
  toml_loads :: "string \<Rightarrow> error + (string \<times> yaml) list"
  validate_metadata :: "filesystem \<Rightarrow> string \<Rightarrow> string \<Rightarrow> error + (int \<times> string)"
  resolve :: "string \<Rightarrow> Connector"

definition toml_load :: "world \<Rightarrow> path \<Rightarrow> error + (string \<times> yaml) list" where
  "toml_load w p = (case read_text (files w) p of Inl e \<Rightarrow> Inl e | Inr s \<Rightarrow> toml_loads w s)"

definition DOCKERFILE_NAME :: string where "DOCKERFILE_NAME = ''Dockerfile''"
definition METADATA_FILE_NAME :: string where "METADATA_FILE_NAME = ''metadata.yaml''"
definition POETRY_LOCK_FILE_NAME :: string where "POETRY_LOCK_FILE_NAME = ''poetry.lock''"
definition PYPROJECT_FILE_NAME :: string where "PYPROJECT_FILE_NAME = ''pyproject.toml''"
definition SETUP_PY_FILE_NAME :: string where "SETUP_PY_FILE_NAME = ''setup.py''"

datatype CheckCategory = CODE_QUALITY | DOCUMENTATION | ASSETS | SECURITY

datatype CheckStatus = PASSED | FAILED | SKIPPED

datatype Check =
    ValidateMetadata
  | CheckDocumentationExists
  | CheckDocumentationStructure
  | CheckChangelogEntry
  | CheckMigrationGuide
  | CheckConnectorIconIsAvailable
  | CheckConnectorUsesHTTPSOnly
  | CheckConnectorUsesPoetry
  | CheckConnectorUsesPythonBaseImage
  | CheckPublishToPyPiIsEnabled
  | CheckConnectorLicense
  | CheckVersionFollowsSemver

record CheckResult =
  check :: Check
  status :: CheckStatus
  message :: string

definition ALL_LANGUAGES :: "ConnectorLanguage set" where
  "ALL_LANGUAGES = {JAVA, LOW_CODE, PYTHON}"

fun applies_to_connector_languages :: "Check \<Rightarrow> ConnectorLanguage set" where
  "applies_to_connector_languages CheckConnectorUsesPoetry = {PYTHON, LOW_CODE}"
| "applies_to_connector_languages CheckConnectorUsesPythonBaseImage = {PYTHON, LOW_CODE}"
| "applies_to_connector_languages CheckPublishToPyPiIsEnabled = {PYTHON, LOW_CODE}"
| "applies_to_connector_languages c = ALL_LANGUAGES"

fun category :: "Check \<Rightarrow> CheckCategory" where
  "category ValidateMetadata = ASSETS"
| "category CheckDocumentationExists = DOCUMENTATION"
| "category CheckDocumentationStructure = DOCUMENTATION"
| "category CheckChangelogEntry = DOCUMENTATION"
| "category CheckMigrationGuide = DOCUMENTATION"
| "category CheckConnectorIconIsAvailable = ASSETS"
| "category CheckConnectorUsesHTTPSOnly = SECURITY"
| "category CheckConnectorUsesPoetry = CODE_QUALITY"
| "category CheckConnectorUsesPythonBaseImage = SECURITY"
| "category CheckPublishToPyPiIsEnabled = CODE_QUALITY"
| "category CheckConnectorLicense = CODE_QUALITY"
| "category CheckVersionFollowsSemver = CODE_QUALITY"

text \<open>
  What \<open>_run\<close> gives back: an exception that leaves the check (\<open>Inl\<close>), a result, or
  Python's \<open>None\<close> where the body ends without a \<open>return\<close>.
\<close>

type_synonym check_return = "error + CheckResult option"

definition skip :: "Check \<Rightarrow> string \<Rightarrow> CheckResult" where
  "skip c reason = \<lparr>check = c, status = SKIPPED, message = reason\<rparr>"

definition create_check_result :: "Check \<Rightarrow> bool \<Rightarrow> string \<Rightarrow> CheckResult" where
  "create_check_result c passed msg =
     \<lparr>check = c, status = (if passed then PASSED else FAILED), message = msg\<rparr>"

definition returns :: "CheckResult \<Rightarrow> check_return" where
  "returns r = Inr (Some r)"

fun check_name :: "Check \<Rightarrow> string" where
  "check_name ValidateMetadata = ''Connectors must have valid metadata''"
| "check_name CheckDocumentationExists = ''Connectors must have user facing documentation''"
| "check_name CheckDocumentationStructure = ''Connectors documentation follows our guidelines''"
| "check_name CheckChangelogEntry = ''Connectors must have a changelog entry for each version''"
| "check_name CheckMigrationGuide = ''Breaking changes must be accompanied by a migration guide''"
| "check_name CheckConnectorIconIsAvailable = ''Connectors must have an icon''"
| "check_name CheckConnectorUsesHTTPSOnly = ''Connectors must use HTTPS only''"
| "check_name CheckConnectorUsesPoetry = ''Connectors must use Poetry for dependency management''"
| "check_name CheckConnectorUsesPythonBaseImage =
     ''Python connectors must not use a '' @ DOCKERFILE_NAME
     @ '' and must declare their base image in '' @ METADATA_FILE_NAME @ '' file''"
| "check_name CheckPublishToPyPiIsEnabled = ''Python connectors must have PyPi publishing enabled''"
| "check_name CheckConnectorLicense = ''Connectors must be licensed under MIT or Elv2''"
| "check_name CheckVersionFollowsSemver = ''Connector version must follow Semantic Versioning''"

section \<open>The checks\<close>

subsection \<open>CheckMigrationGuide\<close>

definition expected_version_header_start :: string where
  "expected_version_header_start = ''## Upgrading to ''"

text \<open>The loop over the lines of the guide that records the version of every heading.\<close>

fun ordered_heading_versions :: "string list \<Rightarrow> string list" where
  "ordered_heading_versions [] = []"
| "ordered_heading_versions (line # lines) =
     (let stripped_line = strip line
      in if prefix expected_version_header_start stripped_line
         then replace stripped_line expected_version_header_start []
              # ordered_heading_versions lines
         else ordered_heading_versions lines)"

text \<open>\<open>sorted(xs, reverse=True)\<close> on strings.\<close>

definition sorted_reverse :: "string list \<Rightarrow> string list" where
  "sorted_reverse xs = rev (sort xs)"

definition migration_guide_missing :: "Connector \<Rightarrow> CheckResult" where
  "migration_guide_missing k =
     create_check_result CheckMigrationGuide False
       (''Migration guide file is missing for '' @ name k
        @ ''. Please create a migration guide at ''
        @ str_opt_path (migration_guide_file_path k))"

definition incorrect_version_headings :: "Connector \<Rightarrow> string list \<Rightarrow> string" where
  "incorrect_version_headings k ordered_expected_headings =
     dedent
       ([CHR 0x0A] @ ''                Migration guide file for '' @ name k
        @ '' has incorrect version headings.'' @ [CHR 0x0A]
        @ ''                Check for missing, extra, or misordered headings, or headers with typos.''
        @ [CHR 0x0A]
        @ ''                Expected headings: '' @ repr_str_list ordered_expected_headings
        @ [CHR 0x0A] @ ''                '')"

definition CheckMigrationGuide_run :: "world \<Rightarrow> Connector \<Rightarrow> check_return" where
  "CheckMigrationGuide_run w k =
     (let breaking_changes = get (metadata k) [''releases'', ''breakingChanges''] YNull
      in if \<not> truthy breaking_changes
         then returns (create_check_result CheckMigrationGuide True
                ''No breaking changes found. A migration guide is not required'')
         else
           (case migration_guide_file_path k of
              None \<Rightarrow> returns (migration_guide_missing k)
            | Some migration_guide_path \<Rightarrow>
                if \<not> path_exists (files w) migration_guide_path
                then returns (migration_guide_missing k)
                else
                  (case read_text (files w) migration_guide_path of
                     Inl e \<Rightarrow> Inl e
                   | Inr migration_guide_content \<Rightarrow>
                       (case splitlines migration_guide_content of
                          [] \<Rightarrow> Inl IndexError
                        | first_line # other_lines \<Rightarrow>
                            let expected_title =
                                  ''# '' @ str_opt (name_from_metadata k) @ '' Migration Guide''
                            in if first_line \<noteq> expected_title
                               then returns (create_check_result CheckMigrationGuide False
                                      (''Migration guide file for '' @ technical_name k
                                       @ '' does not start with the correct header. Expected ''
                                       @ [CHR 0x27] @ expected_title @ [CHR 0x27] @ '', got ''
                                       @ [CHR 0x27] @ first_line @ [CHR 0x27]))
                               else
                                 (case breaking_changes of
                                    YDict d \<Rightarrow>
                                      let ordered_breaking_changes = sorted_reverse (map fst d);
                                          ordered_expected_headings =
                                            map (\<lambda>v. expected_version_header_start @ v)
                                              ordered_breaking_changes;
                                          heading_versions =
                                            ordered_heading_versions
                                              (splitlines migration_guide_content)
                                      in if ordered_breaking_changes \<noteq> heading_versions
                                         then returns (create_check_result CheckMigrationGuide False
                                                (incorrect_version_headings k
                                                   ordered_expected_headings))
                                         else returns (create_check_result CheckMigrationGuide True
                                                ''The migration guide is correctly templated'')
                                  | _ \<Rightarrow> Inl AttributeError)))))"

subsection \<open>CheckDocumentationExists\<close>

definition documentation_exists :: "world \<Rightarrow> Connector \<Rightarrow> bool" where
  "documentation_exists w k =
     (case documentation_file_path k of None \<Rightarrow> False | Some p \<Rightarrow> path_exists (files w) p)"

definition CheckDocumentationExists_run :: "world \<Rightarrow> Connector \<Rightarrow> check_return" where
  "CheckDocumentationExists_run w k =
     (if \<not> documentation_exists w k
      then returns (create_check_result CheckDocumentationExists False
             (''User facing documentation file '' @ str_opt_path (documentation_file_path k)
              @ '' is missing. Please create it''))
      else returns (create_check_result CheckDocumentationExists True
             (''User facing documentation file '' @ str_opt_path (documentation_file_path k)
              @ '' exists'')))"

subsection \<open>CheckDocumentationStructure\<close>

definition name_header_error :: string where
  "name_header_error = ''The connector name is not used as the main header in the documentation''"

definition expected_sections :: "string list" where
  "expected_sections =
     [''## Prerequisites'', ''## Setup guide'', ''## Supported sync modes'',
      ''## Supported streams'', ''## Changelog'']"

definition missing_section_error :: "string \<Rightarrow> string" where
  "missing_section_error expected_section =
     ''Connector documentation is missing a '' @ [CHR 0x27]
     @ strip (replace expected_section ''#'' []) @ [CHR 0x27] @ '' section''"

text \<open>
  The rule on the name: with metadata, the stripped first line is compared with the
  lower-cased name of the metadata; without, the first line only has to start a heading.
\<close>

definition name_errors :: "(string \<times> yaml) list option \<Rightarrow> string \<Rightarrow> error + string list" where
  "name_errors md first_line =
     (if md \<noteq> None \<and> md \<noteq> Some []
      then (case getitem (YDict (the md)) ''name'' of
              Inl e \<Rightarrow> Inl e
            | Inr (YStr n) \<Rightarrow>
                Inr (if strip first_line \<noteq> ''# '' @ lower n then [name_header_error] else [])
            | Inr other \<Rightarrow> Inl AttributeError)
      else Inr (if \<not> prefix ''# '' first_line then [name_header_error] else []))"

definition CheckDocumentationStructure_run :: "world \<Rightarrow> Connector \<Rightarrow> check_return" where
  "CheckDocumentationStructure_run w k =
     (case documentation_file_path k of
        None \<Rightarrow> Inl TypeError
      | Some p \<Rightarrow>
          (case read_text (files w) p of
             Inl e \<Rightarrow> Inl e
           | Inr content \<Rightarrow>
               (let doc_lines = map lower (splitlines content)
                in case doc_lines of
                     [] \<Rightarrow> Inl IndexError
                   | first_line # other_lines \<Rightarrow>
                       (case name_errors (metadata k) first_line of
                          Inl e \<Rightarrow> Inl e
                        | Inr more_errors \<Rightarrow>
                            let errors =
                                  (if \<not> prefix ''# '' first_line then [name_header_error] else [])
                                  @ more_errors
                                  @ map missing_section_error
                                      (filter (\<lambda>expected_section.
                                                 lower expected_section \<notin> set doc_lines)
                                         expected_sections)
                            in if errors \<noteq> []
                               then returns (create_check_result CheckDocumentationStructure False
                                      (''Connector documentation does not follow the guidelines. ''
                                       @ join ''. '' errors))
                               else returns (create_check_result CheckDocumentationStructure True
                                      ''Documentation guidelines are followed'')))))"

subsection \<open>CheckChangelogEntry\<close>

text \<open>
  The loop over the lines: \<open>version in line\<close> is evaluated after the changelog heading
  only, and raises \<open>TypeError\<close> when the connector has no version.
\<close>

fun changelog_entry_found ::
  "string option \<Rightarrow> bool \<Rightarrow> bool \<Rightarrow> string list \<Rightarrow> error + bool" where
  "changelog_entry_found v after_changelog entry_found [] = Inr entry_found"
| "changelog_entry_found v after_changelog entry_found (line # lines) =
     (if after_changelog \<or> sublist ''# changelog'' (lower line)
      then (case v of
              None \<Rightarrow> Inl TypeError
            | Some ver \<Rightarrow> changelog_entry_found v True (entry_found \<or> sublist ver line) lines)
      else changelog_entry_found v False entry_found lines)"

definition CheckChangelogEntry_run :: "world \<Rightarrow> Connector \<Rightarrow> check_return" where
  "CheckChangelogEntry_run w k =
     (case documentation_file_path k of
        None \<Rightarrow> returns (create_check_result CheckChangelogEntry False
                  ''User facing documentation file None is missing. Please create it.'')
      | Some p \<Rightarrow>
          if \<not> path_exists (files w) p
          then returns (create_check_result CheckChangelogEntry False
                 (''User facing documentation file '' @ str_path p
                  @ '' is missing. Please create it.''))
          else
            (case read_text (files w) p of
               Inl e \<Rightarrow> Inl e
             | Inr content \<Rightarrow>
                 (case changelog_entry_found (version k) False False (splitlines content) of
                    Inl e \<Rightarrow> Inl e
                  | Inr entry_found \<Rightarrow>
                      if \<not> entry_found
                      then returns (create_check_result CheckChangelogEntry False
                             (''Changelog entry for version '' @ str_opt (version k)
                              @ '' is missing in the documentation''))
                      else returns (create_check_result CheckChangelogEntry True
                             ''Changelog entry found''))))"

subsection \<open>CheckConnectorIconIsAvailable\<close>

definition CheckConnectorIconIsAvailable_run :: "world \<Rightarrow> Connector \<Rightarrow> check_return" where
  "CheckConnectorIconIsAvailable_run w k =
     (if (case icon_path k of None \<Rightarrow> True | Some p \<Rightarrow> \<not> path_exists (files w) p)
      then returns (create_check_result CheckConnectorIconIsAvailable False
             (''Icon file '' @ str_opt_path (icon_path k) @ '' is missing''))
      else returns (create_check_result CheckConnectorIconIsAvailable True ''Icon file exists''))"

subsection \<open>CheckConnectorUsesHTTPSOnly\<close>

text \<open>
  The three sets of the class are lists here, in the order of the source; a Python set
  has no order of its own. The files found with a URL are kept in the order in which
  the walk meets them.
\<close>

definition ignore_comment :: string where
  "ignore_comment = ''# ignore-https-check''"

definition ignored_directories_for_https_checks :: "string list" where
  "ignored_directories_for_https_checks =
     [''.venv'', ''tests'', ''unit_tests'', ''integration_tests'', ''build'', ''source-file'',
      ''.pytest_cache'', ''acceptance_tests_logs'', ''.hypothesis'', ''.ruff_cache'']"

definition ignored_file_name_pattern_for_https_checks :: "string list" where
  "ignored_file_name_pattern_for_https_checks =
     [''*Test.java'', ''*.jar'', ''*.pyc'', ''*.gz'', ''*.svg'', ''expected_records.jsonl'',
      ''expected_records.json'']"

definition ignored_url_prefixes :: "string list" where
  "ignored_url_prefixes = [''http://json-schema.org'', ''http://localhost'']"

definition is_ignored :: "string list \<Rightarrow> string list \<Rightarrow> path \<Rightarrow> bool" where
  "is_ignored ignored_directories ignored_filename_patterns p =
     (list_ex (\<lambda>ignored_directory. ignored_directory \<in> set p) ignored_directories
      \<or> list_ex (\<lambda>ignored_filename_pattern. path_match p ignored_filename_pattern)
           ignored_filename_patterns)"

text \<open>
  The generator of the pairs of a path and one of its lines. A file that does not decode
  gives no line.
\<close>

definition read_all_files_in_directory ::
  "filesystem \<Rightarrow> path \<Rightarrow> string list \<Rightarrow> string list \<Rightarrow> (path \<times> string) list" where
  "read_all_files_in_directory fs directory ignored_directories ignored_filename_patterns =
     concat (map (\<lambda>(p, n).
                if is_file n \<and> \<not> is_ignored ignored_directories ignored_filename_patterns p
                then (case n of
                        TextFile s \<Rightarrow> map (Pair p) (readlines (universal_newlines s))
                      | _ \<Rightarrow> [])
                else [])
             (rglob fs directory))"

definition language_comments :: "(string \<times> string) list" where
  "language_comments =
     [(''.py'', ''#''), (''.yml'', ''#''), (''.yaml'', ''#''), (''.java'', ''//''),
      (''.md'', ''<!--'')]"

definition line_is_comment :: "string \<Rightarrow> path \<Rightarrow> bool" where
  "line_is_comment line file_path =
     (case map_of language_comments (path_suffix file_path) of
        None \<Rightarrow> False
      | Some denote_comment \<Rightarrow>
          if denote_comment = [] then False else prefix denote_comment (lstrip line))"

text \<open>The body of the loop of \<open>_run\<close> for one line: whether it adds its file to the set.\<close>

definition line_has_http_url :: "path \<Rightarrow> string \<Rightarrow> bool" where
  "line_has_http_url filename line0 =
     (let line = lower line0
      in if line_is_comment line filename then False
         else if sublist ignore_comment line then False
         else sublist ''http://''
                (foldl (\<lambda>l url_prefix. replace l url_prefix []) line ignored_url_prefixes))"

fun files_with_http_url :: "(path \<times> string) list \<Rightarrow> string list \<Rightarrow> string list" where
  "files_with_http_url [] found = found"
| "files_with_http_url ((filename, line) # rest) found =
     files_with_http_url rest
       (if line_has_http_url filename line \<and> str_path filename \<notin> set found
        then found @ [str_path filename] else found)"

definition CheckConnectorUsesHTTPSOnly_run :: "world \<Rightarrow> Connector \<Rightarrow> check_return" where
  "CheckConnectorUsesHTTPSOnly_run w k =
     (let found =
            files_with_http_url
              (read_all_files_in_directory (files w) (code_directory k)
                 ignored_directories_for_https_checks
                 ignored_file_name_pattern_for_https_checks) []
      in if found \<noteq> []
         then returns (create_check_result CheckConnectorUsesHTTPSOnly False
                (''The following files have http:// URLs:'' @ [CHR 0x0A, CHR 0x09] @ ''- ''
                 @ join ([CHR 0x0A, CHR 0x09] @ ''- '') found))
         else returns (create_check_result CheckConnectorUsesHTTPSOnly True
                ''No file with http:// URLs found''))"

subsection \<open>CheckConnectorUsesPoetry\<close>

definition CheckConnectorUsesPoetry_run :: "world \<Rightarrow> Connector \<Rightarrow> check_return" where
  "CheckConnectorUsesPoetry_run w k =
     (if \<not> path_exists (files w) (code_directory k @ [PYPROJECT_FILE_NAME])
      then returns (create_check_result CheckConnectorUsesPoetry False
             ''pyproject.toml file is missing'')
      else if \<not> path_exists (files w) (code_directory k @ [POETRY_LOCK_FILE_NAME])
      then returns (create_check_result CheckConnectorUsesPoetry False
             ''poetry.lock file is missing'')
      else if path_exists (files w) (code_directory k @ [SETUP_PY_FILE_NAME])
      then returns (create_check_result CheckConnectorUsesPoetry False
             ''setup.py file exists. Please remove it and use pyproject.toml instead'')
      else returns (create_check_result CheckConnectorUsesPoetry True
             ''Poetry is used for dependency management''))"

subsection \<open>CheckConnectorUsesPythonBaseImage\<close>

definition metadata_truthy :: "(string \<times> yaml) list option \<Rightarrow> bool" where
  "metadata_truthy md = (md \<noteq> None \<and> md \<noteq> Some [])"

definition CheckConnectorUsesPythonBaseImage_run :: "world \<Rightarrow> Connector \<Rightarrow> check_return" where
  "CheckConnectorUsesPythonBaseImage_run w k =
     (if path_exists (files w) (code_directory k @ [DOCKERFILE_NAME])
      then returns (create_check_result CheckConnectorUsesPythonBaseImage False
             (DOCKERFILE_NAME
              @ '' file exists. Please remove it and declare the base image in ''
              @ METADATA_FILE_NAME @ '' file with the `connectorBuildOptions.baseImage` key''))
      else if \<not> metadata_truthy (metadata k)
      then returns (create_check_result CheckConnectorUsesPythonBaseImage False
             (METADATA_FILE_NAME @ '' file is missing''))
      else if \<not> truthy (get (metadata k) [''connectorBuildOptions'', ''baseImage''] YNull)
      then returns (create_check_result CheckConnectorUsesPythonBaseImage False
             (''connectorBuildOptions.baseImage key is missing in '' @ METADATA_FILE_NAME
              @ '' file''))
      else returns (create_check_result CheckConnectorUsesPythonBaseImage True
             ''Connector uses the Python connector base image''))"

subsection \<open>ValidateMetadata\<close>

definition required_env_vars :: "string list" where
  "required_env_vars = [''DOCKERHUB_USERNAME'', ''DOCKERHUB_PASSWORD'']"

definition missing_env_vars :: "world \<Rightarrow> string list" where
  "missing_env_vars w = filter (\<lambda>env_var. map_of (environ w) env_var = None) required_env_vars"

definition ValidateMetadata_run :: "world \<Rightarrow> Connector \<Rightarrow> check_return" where
  "ValidateMetadata_run w k =
     (case missing_env_vars w of
        env_var # others \<Rightarrow>
          Inl (ValueError (''Environment variable '' @ env_var @ '' is required for this check''))
      | [] \<Rightarrow>
          let metadata_file_path = code_directory k @ [METADATA_FILE_NAME]
          in if \<not> path_exists (files w) metadata_file_path
             then returns (create_check_result ValidateMetadata False
                    (METADATA_FILE_NAME @ '' file is missing''))
             else if \<not> documentation_exists w k
             then returns (create_check_result ValidateMetadata False
                    (''User facing documentation file ''
                     @ str_opt_path (documentation_file_path k)
                     @ '' is missing. Please create it''))
             else
               (case validate_metadata w (files w) (str_path metadata_file_path)
                       (str_opt_path (documentation_file_path k)) of
                  Inl e \<Rightarrow> Inl e
                | Inr (exit_code, output) \<Rightarrow>
                    if exit_code = 0
                    then returns (create_check_result ValidateMetadata True
                           ''Metadata file is valid'')
                    else returns (create_check_result ValidateMetadata False
                           (''Metadata file is invalid: '' @ output))))"

subsection \<open>CheckPublishToPyPiIsEnabled\<close>

definition CheckPublishToPyPiIsEnabled_run :: "world \<Rightarrow> Connector \<Rightarrow> check_return" where
  "CheckPublishToPyPiIsEnabled_run w k =
     (if \<not> metadata_truthy (metadata k)
      then returns (create_check_result CheckPublishToPyPiIsEnabled False
             (METADATA_FILE_NAME @ '' file is missing''))
      else if \<not> truthy (get (metadata k) [''remoteRegistries'', ''pypi'', ''enabled''] (YBool False))
      then returns (create_check_result CheckPublishToPyPiIsEnabled False
             ''PyPi publishing is not enabled. Please enable it in the metadata file'')
      else returns (create_check_result CheckPublishToPyPiIsEnabled True
             ''PyPi publishing is enabled''))"

subsection \<open>CheckConnectorLicense\<close>

definition has_pyproject :: "world \<Rightarrow> Connector \<Rightarrow> bool" where
  "has_pyproject w k =
     (language k \<in> {LOW_CODE, PYTHON}
      \<and> path_exists (files w) (code_directory k @ [PYPROJECT_FILE_NAME]))"

definition CheckConnectorLicense_run :: "world \<Rightarrow> Connector \<Rightarrow> check_return" where
  "CheckConnectorLicense_run w k =
     (if \<not> metadata_truthy (metadata k)
      then returns (create_check_result CheckConnectorLicense False
             (METADATA_FILE_NAME @ '' file is missing''))
      else
        (case get (metadata k) [''license''] YNull of
           YStr metadata_license \<Rightarrow>
             if upper metadata_license \<notin> set [''MIT'', ''ELV2'']
             then returns (create_check_result CheckConnectorLicense False
                    (''Connector is licensed under '' @ metadata_license
                     @ ''. Please use MIT or Elv2 license''))
             else if has_pyproject w k
             then
               (case toml_load w (code_directory k @ [PYPROJECT_FILE_NAME]) of
                  Inl e \<Rightarrow> Inl e
                | Inr pyproject \<Rightarrow>
                    let poetry_license = get (Some pyproject) [''tool'', ''poetry'', ''license''] YNull
                    in if truthy poetry_license
                       then if poetry_license \<noteq> YStr metadata_license
                            then returns (create_check_result CheckConnectorLicense False
                                   (''Connector is licensed under '' @ py_str poetry_license
                                    @ '' in '' @ PYPROJECT_FILE_NAME @ '', but licensed under ''
                                    @ metadata_license @ '' in '' @ METADATA_FILE_NAME
                                    @ ''. These two files have to be consistent''))
                            else returns (create_check_result CheckConnectorLicense True
                                   ''Connector is licensed under MIT or ELv2 license'')
                       else returns (create_check_result CheckConnectorLicense False
                              (''Connector is missing license in '' @ PYPROJECT_FILE_NAME
                               @ ''. Please add it'')))
             else returns (create_check_result CheckConnectorLicense True
                    ''Connector is licensed under MIT or ELv2 license'')
         | other \<Rightarrow> Inl AttributeError))"

subsection \<open>CheckVersionFollowsSemver\<close>

text \<open>
  The body of the \<open>try\<close>: it gives a result only when the two versions differ, and
  otherwise runs to its end.
\<close>

definition semver_try :: "world \<Rightarrow> Connector \<Rightarrow> yaml \<Rightarrow> check_return" where
  "semver_try w k docker_image_tag =
     (case Version_parse (py_str docker_image_tag) of
        Inl e \<Rightarrow> Inl e
      | Inr metadata_version \<Rightarrow>
          if has_pyproject w k
          then
            (case toml_load w (code_directory k @ [PYPROJECT_FILE_NAME]) of
               Inl e \<Rightarrow> Inl e
             | Inr pyproject \<Rightarrow>
                 (case getitem (YDict pyproject) ''tool'' of
                    Inl e \<Rightarrow> Inl e
                  | Inr tool \<Rightarrow>
                      (case getitem tool ''poetry'' of
                         Inl e \<Rightarrow> Inl e
                       | Inr poetry \<Rightarrow>
                           (case getitem poetry ''version'' of
                              Inl e \<Rightarrow> Inl e
                            | Inr v \<Rightarrow>
                                (case Version_parse (py_str v) of
                                   Inl e \<Rightarrow> Inl e
                                 | Inr poetry_version \<Rightarrow>
                                     if \<not> Version_eq metadata_version poetry_version
                                     then returns (create_check_result CheckVersionFollowsSemver
                                            False
                                            (''Connector version in '' @ METADATA_FILE_NAME
                                             @ '' is '' @ Version_str metadata_version
                                             @ '', but version in '' @ PYPROJECT_FILE_NAME
                                             @ '' is '' @ Version_str poetry_version
                                             @ ''. These two files have to be consistent''))
                                     else Inr None)))))
          else Inr None)"

text \<open>
  After the \<open>try\<close> statement the method ends: where the body of the \<open>try\<close> gave no result
  and raised nothing, the method returns \<open>None\<close>.
\<close>

definition CheckVersionFollowsSemver_run :: "world \<Rightarrow> Connector \<Rightarrow> check_return" where
  "CheckVersionFollowsSemver_run w k =
     (case metadata k of
        None \<Rightarrow> returns (create_check_result CheckVersionFollowsSemver False
                  (''Connector version is missing in '' @ METADATA_FILE_NAME))
      | Some md \<Rightarrow>
          (case map_of md ''dockerImageTag'' of
             None \<Rightarrow> returns (create_check_result CheckVersionFollowsSemver False
                       (''dockerImageTag is missing in '' @ METADATA_FILE_NAME))
           | Some docker_image_tag \<Rightarrow>
               (case semver_try w k docker_image_tag of
                  Inl e \<Rightarrow>
                    if is_ValueError e
                    then returns (create_check_result CheckVersionFollowsSemver False
                           (''Connector version '' @ py_str docker_image_tag
                            @ '' does not follow Semantic Versioning''))
                    else Inl e
                | Inr r \<Rightarrow> Inr r)))"

section \<open>Running a check\<close>

text \<open>\<open>Check._run\<close> as each check overrides it.\<close>

fun check_run :: "Check \<Rightarrow> world \<Rightarrow> Connector \<Rightarrow> check_return" where
  "check_run ValidateMetadata = ValidateMetadata_run"
| "check_run CheckDocumentationExists = CheckDocumentationExists_run"
| "check_run CheckDocumentationStructure = CheckDocumentationStructure_run"
| "check_run CheckChangelogEntry = CheckChangelogEntry_run"
| "check_run CheckMigrationGuide = CheckMigrationGuide_run"
| "check_run CheckConnectorIconIsAvailable = CheckConnectorIconIsAvailable_run"
| "check_run CheckConnectorUsesHTTPSOnly = CheckConnectorUsesHTTPSOnly_run"
| "check_run CheckConnectorUsesPoetry = CheckConnectorUsesPoetry_run"
| "check_run CheckConnectorUsesPythonBaseImage = CheckConnectorUsesPythonBaseImage_run"
| "check_run CheckPublishToPyPiIsEnabled = CheckPublishToPyPiIsEnabled_run"
| "check_run CheckConnectorLicense = CheckConnectorLicense_run"
| "check_run CheckVersionFollowsSemver = CheckVersionFollowsSemver_run"

text \<open>\<open>Check.run\<close>: the connector is bound, the language is tested, then \<open>_run\<close> is called.\<close>

definition run :: "Check \<Rightarrow> world \<Rightarrow> Connector \<Rightarrow> check_return" where
  "run c w connector =
     (if language connector \<notin> applies_to_connector_languages c
      then returns (skip c (''Check does not apply to '' @ language_value (language connector)
                            @ '' connectors''))
      else check_run c w connector)"

text \<open>Whether running a check gave a result: no exception, and not \<open>None\<close>.\<close>

definition gives_result :: "check_return \<Rightarrow> bool" where
  "gives_result x = (case x of Inr (Some r) \<Rightarrow> True | _ \<Rightarrow> False)"

section \<open>The command line\<close>

definition ENABLED_CHECKS :: "Check list" where
  "ENABLED_CHECKS =
     [ValidateMetadata, CheckDocumentationExists, CheckDocumentationStructure,
      CheckChangelogEntry, CheckMigrationGuide, CheckConnectorIconIsAvailable,
      CheckConnectorUsesHTTPSOnly, CheckConnectorUsesPoetry, CheckConnectorUsesPythonBaseImage,
      CheckPublishToPyPiIsEnabled, CheckConnectorLicense, CheckVersionFollowsSemver]"

text \<open>
  The loop of \<open>cli.run\<close> over the pairs: every result is appended and echoed; an
  exception that leaves a check leaves the loop with the results so far.
\<close>

fun run_pairs ::
  "world \<Rightarrow> (Connector \<times> Check) list \<Rightarrow> CheckResult option list
   \<Rightarrow> CheckResult option list \<times> error option" where
  "run_pairs w [] check_results = (check_results, None)"
| "run_pairs w ((connector, c) # rest) check_results =
     (case run c w connector of
        Inl e \<Rightarrow> (check_results, Some e)
      | Inr check_result \<Rightarrow> run_pairs w rest (check_results @ [check_result]))"

text \<open>
  The comprehension that keeps the failed results; reading the status of \<open>None\<close> raises
  \<open>AttributeError\<close>.
\<close>

fun failed_checks :: "CheckResult option list \<Rightarrow> error + CheckResult list" where
  "failed_checks [] = Inr []"
| "failed_checks (None # rest) = Inl AttributeError"
| "failed_checks (Some check_result # rest) =
     (case failed_checks rest of
        Inl e \<Rightarrow> Inl e
      | Inr failed \<Rightarrow> Inr (if status check_result = FAILED then check_result # failed else failed))"

text \<open>
  \<open>cli.run\<close> on the names given with \<open>--name\<close>, with the registry as a parameter: the
  results echoed, and the exception the command ends with, if any. The set of
  connectors is the list of the connectors of the normalised names, in the order of
  the names and without repetition.
\<close>

definition connector_set :: "world \<Rightarrow> string list \<Rightarrow> Connector list" where
  "connector_set w connectors =
     remdups (map (\<lambda>connector. resolve w (remove_strict_encrypt_suffix connector)) connectors)"

definition run_with ::
  "Check list \<Rightarrow> world \<Rightarrow> string list \<Rightarrow> CheckResult option list \<times> error option" where
  "run_with registry w connectors =
     (case run_pairs w (List.product (connector_set w connectors) registry) [] of
        (check_results, Some e) \<Rightarrow> (check_results, Some e)
      | (check_results, None) \<Rightarrow>
          (case failed_checks check_results of
             Inl e \<Rightarrow> (check_results, Some e)
           | Inr failed \<Rightarrow>
               if failed \<noteq> []
               then (check_results,
                     Some (ClickException (str_nat (length failed) @ '' checks failed'')))
               else (check_results, None)))"

definition cli_run :: "world \<Rightarrow> string list \<Rightarrow> CheckResult option list \<times> error option" where
  "cli_run w connectors = run_with ENABLED_CHECKS w connectors"

section \<open>Example connectors\<close>

text \<open>
  A Python connector, \<open>source-faker\<close>, with its files at the conventional places, and
  the worlds the examples run in: the TOML parser knows the two manifests of the
  examples, the validator accepts every metadata file.
\<close>

definition faker_code_directory :: path where
  "faker_code_directory = [''airbyte-integrations'', ''connectors'', ''source-faker'']"

definition faker_documentation :: path where
  "faker_documentation = [''docs'', ''integrations'', ''sources'', ''faker.md'']"

definition faker_migration_guide :: path where
  "faker_migration_guide = [''docs'', ''integrations'', ''sources'', ''faker-migrations.md'']"

definition metadata_string :: "(string \<times> yaml) list option \<Rightarrow> string \<Rightarrow> string option" where
  "metadata_string md key =
     (case md of
        None \<Rightarrow> None
      | Some d \<Rightarrow> (case map_of d key of Some (YStr s) \<Rightarrow> Some s | _ \<Rightarrow> None))"

definition faker :: "ConnectorLanguage \<Rightarrow> (string \<times> yaml) list option \<Rightarrow> Connector" where
  "faker lang md =
     \<lparr>technical_name = ''source-faker'', name = ''faker'',
      name_from_metadata = metadata_string md ''name'', language = lang,
      code_directory = faker_code_directory, metadata = md,
      documentation_file_path = Some faker_documentation,
      icon_path = Some (faker_code_directory @ [''icon.svg'']),
      migration_guide_file_path = Some faker_migration_guide,
      version = metadata_string md ''dockerImageTag''\<rparr>"

definition faker_metadata :: "string \<Rightarrow> (string \<times> yaml) list" where
  "faker_metadata tag =
     [(''name'', YStr ''Faker''), (''dockerImageTag'', YStr tag), (''license'', YStr ''MIT'')]"

definition pyproject_text :: "string \<Rightarrow> string" where
  "pyproject_text v =
     ''[tool.poetry]'' @ [CHR 0x0A] @ ''version = '' @ [CHR 0x22] @ v @ [CHR 0x22, CHR 0x0A]
     @ ''license = '' @ [CHR 0x22] @ ''MIT'' @ [CHR 0x22, CHR 0x0A]"

definition pyproject_document :: "string \<Rightarrow> (string \<times> yaml) list" where
  "pyproject_document v =
     [(''tool'', YDict [(''poetry'', YDict [(''version'', YStr v), (''license'', YStr ''MIT'')])])]"

definition example_toml_loads :: "string \<Rightarrow> error + (string \<times> yaml) list" where
  "example_toml_loads s =
     (if s = pyproject_text ''1.2.3'' then Inr (pyproject_document ''1.2.3'')
      else if s = pyproject_text ''1.2.4'' then Inr (pyproject_document ''1.2.4'')
      else Inl TomlDecodeError)"

definition credentials :: "(string \<times> string) list" where
  "credentials = [(''DOCKERHUB_USERNAME'', ''airbyte''), (''DOCKERHUB_PASSWORD'', ''secret'')]"

definition example_world ::
  "(string \<times> string) list \<Rightarrow> filesystem \<Rightarrow> (string \<Rightarrow> Connector) \<Rightarrow> world" where
  "example_world env fs connector_of =
     \<lparr>environ = env, files = fs, toml_loads = example_toml_loads,
      validate_metadata = (\<lambda>fs metadata_file documentation_file. Inr (0, [])),
      resolve = connector_of\<rparr>"

definition semver_world :: "string \<Rightarrow> world" where
  "semver_world manifest_version =
     example_world credentials
       [(faker_code_directory @ [PYPROJECT_FILE_NAME], TextFile (pyproject_text manifest_version))]
       (\<lambda>n. faker PYTHON (Some (faker_metadata ''1.2.3'')))"

text \<open>A connector that is not published yet: no metadata, and a documentation of one line.\<close>

definition unpublished_world :: world where
  "unpublished_world =
     example_world credentials [(faker_documentation, TextFile ''# Faker'')]
       (\<lambda>n. (faker PYTHON None)\<lparr>technical_name := n\<rparr>)"

text \<open>
  A connector with breaking changes, the mapping given in the order of its entries, and
  a migration guide with one section for each version of a list.
\<close>

definition breaking_metadata :: "string list \<Rightarrow> (string \<times> yaml) list" where
  "breaking_metadata versions =
     [(''name'', YStr ''Faker''),
      (''releases'',
       YDict [(''breakingChanges'',
               YDict (map (\<lambda>v. (v, YDict [(''message'', YStr ''Read the guide.'')])) versions))])]"

definition migration_guide_text :: "string list \<Rightarrow> string" where
  "migration_guide_text versions =
     join [CHR 0x0A]
       (''# Faker Migration Guide''
        # concat (map (\<lambda>v. [[], expected_version_header_start @ v, [],
                             ''Follow the steps below.'']) versions))"

definition guide_world :: "string list \<Rightarrow> world" where
  "guide_world versions =
     example_world credentials
       [(faker_migration_guide, TextFile (migration_guide_text versions))]
       (\<lambda>n. faker PYTHON None)"

section \<open>Properties of the string library\<close>

lemma prefix_append_butlast:
  assumes "prefix old (p @ old @ rest)" and "p \<noteq> []"
  shows "sublist old (p @ butlast old)"
proof (cases "old = []")
  case True
  then show ?thesis by simp
next
  case False
  have len: "length old \<le> length (p @ butlast old)"
    using assms(2) False by (cases p) auto
  have split: "p @ old @ rest = (p @ butlast old) @ (last old # rest)"
    using False by (metis append.assoc append_Cons append_Nil append_butlast_last_id)
  have "old = take (length old) (p @ old @ rest)"
    using assms(1) by (metis append_eq_conv_conj prefix_def)
  then have "old = take (length old) ((p @ butlast old) @ (last old # rest))"
    using split by simp
  then have "old = take (length old) (p @ butlast old)"
    using len by (simp del: append_assoc)
  then show ?thesis
    by (metis sublist_take)
qed

text \<open>The first occurrence of \<open>old\<close> is the replaced one; the scan goes on behind it.\<close>

lemma replace_from_skip:
  "\<not> sublist old (p @ butlast old) \<Longrightarrow> old \<noteq> [] \<Longrightarrow>
   replace_from old new (p @ old @ rest) = p @ new @ replace_from old new rest"
proof (induction p)
  case Nil
  then show ?case by (cases old) auto
next
  case (Cons c p)
  have "\<not> prefix old ((c # p) @ old @ rest)"
    using Cons.prems(1) prefix_append_butlast by blast
  moreover have "\<not> sublist old (p @ butlast old)"
    using Cons.prems(1) by (simp add: sublist_Cons_right)
  ultimately show ?case using Cons by simp
qed

lemma replace_from_pieces:
  "old \<noteq> [] \<Longrightarrow> \<forall>p\<in>set ps. \<not> sublist old (p @ butlast old) \<Longrightarrow>
   replace_from old [] (concat (map (\<lambda>p. p @ old) ps)) = concat ps"
  by (induction ps) (simp_all add: replace_from_skip)

lemma replace_from_absent:
  "\<not> sublist old s \<Longrightarrow> replace_from old new s = s"
  by (induction s) (auto simp: sublist_Cons_right)

lemma suffix_last_eq:
  "suffix a n \<Longrightarrow> suffix b n \<Longrightarrow> a \<noteq> [] \<Longrightarrow> b \<noteq> [] \<Longrightarrow> last a = last b"
  by (metis last_appendR suffix_def)

lemma secure_not_strict_encrypt:
  "suffix ''-secure'' n \<Longrightarrow> \<not> suffix ''-strict-encrypt'' n"
  using suffix_last_eq [of "''-secure''" n "''-strict-encrypt''"] by auto

lemma suffix_concat_pieces:
  "ps \<noteq> [] \<Longrightarrow> suffix sfx (concat (map (\<lambda>p. p @ sfx) ps))"
  by (induction ps rule: rev_induct) (auto simp: suffix_def)

section \<open>Connector-name normalisation\<close>

text \<open>
  Claim C10. \<open>remove_strict_encrypt_suffix\<close> returns a name that ends with neither
  \<open>-strict-encrypt\<close> nor \<open>-secure\<close> unchanged. For a name that ends with one of the two
  it returns \<open>name.replace(suffix, "")\<close>, which removes every occurrence of that suffix
  and not only the last one: a name made of pieces that are each followed by the suffix,
  the pieces cut where a scan from the left finds the suffix, is mapped to the pieces
  alone, and \<open>source-secure-db-secure\<close> is mapped to \<open>source-db\<close>.
\<close>

theorem remove_strict_encrypt_suffix_removes_all:
  "(\<not> suffix ''-strict-encrypt'' n \<and> \<not> suffix ''-secure'' n
      \<longrightarrow> remove_strict_encrypt_suffix n = n) \<and>
   (suffix ''-strict-encrypt'' n
      \<longrightarrow> remove_strict_encrypt_suffix n = replace n ''-strict-encrypt'' []) \<and>
   (suffix ''-secure'' n
      \<longrightarrow> remove_strict_encrypt_suffix n = replace n ''-secure'' []) \<and>
   (sfx \<in> set strict_encrypt_suffixes \<and> ps \<noteq> [] \<and>
    (\<forall>p\<in>set ps. \<not> sublist sfx (p @ butlast sfx))
      \<longrightarrow> remove_strict_encrypt_suffix (concat (map (\<lambda>p. p @ sfx) ps)) = concat ps) \<and>
   remove_strict_encrypt_suffix ''source-secure-db-secure'' = ''source-db''"
proof -
  have unchanged: "remove_strict_encrypt_suffix n = n"
    if "\<not> suffix ''-strict-encrypt'' n" "\<not> suffix ''-secure'' n"
    using that by (simp add: remove_strict_encrypt_suffix_def strict_encrypt_suffixes_def)
  have first: "remove_strict_encrypt_suffix m = replace m ''-strict-encrypt'' []"
    if "suffix ''-strict-encrypt'' m" for m
    using that by (simp add: remove_strict_encrypt_suffix_def strict_encrypt_suffixes_def)
  have second: "remove_strict_encrypt_suffix m = replace m ''-secure'' []"
    if "suffix ''-secure'' m" for m
    using that secure_not_strict_encrypt [OF that]
    by (simp add: remove_strict_encrypt_suffix_def strict_encrypt_suffixes_def)
  have pieces: "remove_strict_encrypt_suffix (concat (map (\<lambda>p. p @ sfx) ps)) = concat ps"
    if mem: "sfx \<in> set strict_encrypt_suffixes" and ne: "ps \<noteq> []"
      and free: "\<forall>p\<in>set ps. \<not> sublist sfx (p @ butlast sfx)"
  proof -
    let ?n = "concat (map (\<lambda>p. p @ sfx) ps)"
    have ends: "suffix sfx ?n" using ne by (rule suffix_concat_pieces)
    have nonempty: "sfx \<noteq> []" using mem by (auto simp: strict_encrypt_suffixes_def)
    have "remove_strict_encrypt_suffix ?n = replace ?n sfx []"
      using mem ends first [of ?n] second [of ?n] by (auto simp: strict_encrypt_suffixes_def)
    also have "\<dots> = replace_from sfx [] ?n"
      using nonempty by (simp add: replace_def)
    also have "\<dots> = concat ps"
      using nonempty free by (rule replace_from_pieces)
    finally show ?thesis .
  qed
  have example: "remove_strict_encrypt_suffix ''source-secure-db-secure'' = ''source-db''"
    by (simp add: remove_strict_encrypt_suffix_def strict_encrypt_suffixes_def replace_def
        suffix_to_prefix)
  show ?thesis using unchanged first second pieces example by blast
qed

theorem remove_strict_encrypt_suffix_removes_all_witness:
  "remove_strict_encrypt_suffix ''source-postgres'' = ''source-postgres'' \<and>
   remove_strict_encrypt_suffix ''source-db-strict-encrypt'' = ''source-db'' \<and>
   remove_strict_encrypt_suffix (concat (map (\<lambda>p. p @ ''-secure'') [''source'', ''-db'']))
     = ''source-db''"
  using remove_strict_encrypt_suffix_removes_all
    [of "''source-postgres''" "''-secure''" "[''source'', ''-db'']"]
    remove_strict_encrypt_suffix_removes_all
    [of "''source-db-strict-encrypt''" "''-secure''" "[''source'', ''-db'']"]
  by (simp add: strict_encrypt_suffixes_def suffix_to_prefix sublist_Cons_right replace_def)

section \<open>The environment of the metadata check\<close>

text \<open>
  Claim C8. When \<open>DOCKERHUB_USERNAME\<close> or \<open>DOCKERHUB_PASSWORD\<close> is absent from the
  environment, running \<open>ValidateMetadata\<close> raises \<open>ValueError\<close> for a variable that is
  required and absent, and returns no result. It does so for every connector (each
  language is one the check applies to), whatever the file system holds and whatever
  the validator would answer: no file is looked at before.
\<close>

theorem ValidateMetadata_raises_without_credentials:
  assumes "map_of (environ w) ''DOCKERHUB_USERNAME'' = None
           \<or> map_of (environ w) ''DOCKERHUB_PASSWORD'' = None"
  shows "\<exists>env_var \<in> set required_env_vars.
           map_of (environ w) env_var = None \<and>
           (\<forall>k fs vm.
              run ValidateMetadata (w\<lparr>files := fs, validate_metadata := vm\<rparr>) k
              = Inl (ValueError (''Environment variable '' @ env_var
                                 @ '' is required for this check'')))"
proof -
  have applies: "language k \<in> applies_to_connector_languages ValidateMetadata" for k
    by (cases "language k") (simp_all add: ALL_LANGUAGES_def)
  have same: "missing_env_vars (w\<lparr>files := fs, validate_metadata := vm\<rparr>) = missing_env_vars w"
    for fs vm
    by (simp add: missing_env_vars_def)
  show ?thesis
  proof (cases "map_of (environ w) ''DOCKERHUB_USERNAME'' = None")
    case True
    then have "\<exists>rest. missing_env_vars w = ''DOCKERHUB_USERNAME'' # rest"
      by (simp add: missing_env_vars_def required_env_vars_def)
    then have "\<forall>k fs vm.
        run ValidateMetadata (w\<lparr>files := fs, validate_metadata := vm\<rparr>) k
        = Inl (ValueError (''Environment variable '' @ ''DOCKERHUB_USERNAME''
                           @ '' is required for this check''))"
      using applies by (auto simp: run_def ValidateMetadata_run_def same)
    with True show ?thesis
      by (auto simp: required_env_vars_def)
  next
    case False
    with assms have absent: "map_of (environ w) ''DOCKERHUB_PASSWORD'' = None"
      by simp
    with False have "missing_env_vars w = [''DOCKERHUB_PASSWORD'']"
      by (simp add: missing_env_vars_def required_env_vars_def)
    then have "\<forall>k fs vm.
        run ValidateMetadata (w\<lparr>files := fs, validate_metadata := vm\<rparr>) k
        = Inl (ValueError (''Environment variable '' @ ''DOCKERHUB_PASSWORD''
                           @ '' is required for this check''))"
      using applies by (auto simp: run_def ValidateMetadata_run_def same)
    with absent show ?thesis
      by (auto simp: required_env_vars_def)
  qed
qed

theorem ValidateMetadata_raises_without_credentials_witness:
  "run ValidateMetadata
     (example_world [(''DOCKERHUB_USERNAME'', ''airbyte'')] [] (\<lambda>n. faker PYTHON None))
     (faker JAVA (Some (faker_metadata ''1.2.3'')))
   = Inl (ValueError ''Environment variable DOCKERHUB_PASSWORD is required for this check'')"
proof -
  let ?w = "example_world [(''DOCKERHUB_USERNAME'', ''airbyte'')] [] (\<lambda>n. faker PYTHON None)"
  have absent: "map_of (environ ?w) ''DOCKERHUB_USERNAME'' = None
                \<or> map_of (environ ?w) ''DOCKERHUB_PASSWORD'' = None"
    by (simp add: example_world_def)
  have "?w\<lparr>files := files ?w, validate_metadata := validate_metadata ?w\<rparr> = ?w"
    by simp
  with ValidateMetadata_raises_without_credentials [OF absent] show ?thesis
    by (auto simp: required_env_vars_def example_world_def)
qed

section \<open>Results are passed, failed or skipped\<close>

text \<open>
  A result that \<open>_run\<close> returns is made by \<open>create_check_result\<close>, so it is passed
  or failed; the version check returns failed results only.
\<close>

lemma returns_status [simp]:
  "(returns (create_check_result c b m) = Inr (Some r)) = (r = create_check_result c b m)"
  by (auto simp: returns_def)

lemma create_not_skipped [simp]: "status (create_check_result c b m) \<noteq> SKIPPED"
  by (simp add: create_check_result_def)

lemma ValidateMetadata_run_status:
  "ValidateMetadata_run w k = Inr (Some r) \<Longrightarrow> status r \<noteq> SKIPPED"
  by (auto simp: ValidateMetadata_run_def Let_def split: list.splits sum.splits if_splits prod.splits)

lemma CheckDocumentationExists_run_status:
  "CheckDocumentationExists_run w k = Inr (Some r) \<Longrightarrow> status r \<noteq> SKIPPED"
  by (auto simp: CheckDocumentationExists_run_def split: if_splits)

lemma CheckDocumentationStructure_run_status:
  "CheckDocumentationStructure_run w k = Inr (Some r) \<Longrightarrow> status r \<noteq> SKIPPED"
  by (auto simp: CheckDocumentationStructure_run_def Let_def
      split: option.splits sum.splits list.splits if_splits)

lemma CheckChangelogEntry_run_status:
  "CheckChangelogEntry_run w k = Inr (Some r) \<Longrightarrow> status r \<noteq> SKIPPED"
  by (auto simp: CheckChangelogEntry_run_def split: option.splits sum.splits if_splits)

lemma CheckMigrationGuide_run_status:
  "CheckMigrationGuide_run w k = Inr (Some r) \<Longrightarrow> status r \<noteq> SKIPPED"
  by (auto simp: CheckMigrationGuide_run_def migration_guide_missing_def Let_def
      split: option.splits sum.splits list.splits yaml.splits if_splits)

lemma CheckConnectorIconIsAvailable_run_status:
  "CheckConnectorIconIsAvailable_run w k = Inr (Some r) \<Longrightarrow> status r \<noteq> SKIPPED"
  by (auto simp: CheckConnectorIconIsAvailable_run_def split: if_splits)

lemma CheckConnectorUsesHTTPSOnly_run_status:
  "CheckConnectorUsesHTTPSOnly_run w k = Inr (Some r) \<Longrightarrow> status r \<noteq> SKIPPED"
  by (auto simp: CheckConnectorUsesHTTPSOnly_run_def Let_def split: if_splits)

lemma CheckConnectorUsesPoetry_run_status:
  "CheckConnectorUsesPoetry_run w k = Inr (Some r) \<Longrightarrow> status r \<noteq> SKIPPED"
  by (auto simp: CheckConnectorUsesPoetry_run_def split: if_splits)

lemma CheckConnectorUsesPythonBaseImage_run_status:
  "CheckConnectorUsesPythonBaseImage_run w k = Inr (Some r) \<Longrightarrow> status r \<noteq> SKIPPED"
  by (auto simp: CheckConnectorUsesPythonBaseImage_run_def split: if_splits)

lemma CheckPublishToPyPiIsEnabled_run_status:
  "CheckPublishToPyPiIsEnabled_run w k = Inr (Some r) \<Longrightarrow> status r \<noteq> SKIPPED"
  by (auto simp: CheckPublishToPyPiIsEnabled_run_def split: if_splits)

lemma CheckConnectorLicense_run_status:
  "CheckConnectorLicense_run w k = Inr (Some r) \<Longrightarrow> status r \<noteq> SKIPPED"
  by (auto simp: CheckConnectorLicense_run_def Let_def
      split: yaml.splits sum.splits if_splits)

lemma semver_try_status:
  "semver_try w k t = Inr (Some r) \<Longrightarrow> status r = FAILED"
  by (auto simp: semver_try_def returns_def create_check_result_def
      split: sum.splits if_splits)

lemma CheckVersionFollowsSemver_run_status:
  "CheckVersionFollowsSemver_run w k = Inr (Some r) \<Longrightarrow> status r = FAILED"
  by (auto simp: CheckVersionFollowsSemver_run_def returns_def create_check_result_def
      dest: semver_try_status split: option.splits sum.splits if_splits)

lemma check_run_status: "check_run c w k = Inr (Some r) \<Longrightarrow> status r \<noteq> SKIPPED"
  by (cases c)
    (auto dest: ValidateMetadata_run_status CheckDocumentationExists_run_status
      CheckDocumentationStructure_run_status CheckChangelogEntry_run_status
      CheckMigrationGuide_run_status CheckConnectorIconIsAvailable_run_status
      CheckConnectorUsesHTTPSOnly_run_status CheckConnectorUsesPoetry_run_status
      CheckConnectorUsesPythonBaseImage_run_status CheckPublishToPyPiIsEnabled_run_status
      CheckConnectorLicense_run_status CheckVersionFollowsSemver_run_status)

lemma language_in_ALL_LANGUAGES: "language k \<in> ALL_LANGUAGES"
  by (cases "language k") (simp_all add: ALL_LANGUAGES_def)

text \<open>
  Claim C3. For every check and connector, a result of \<open>Check.run\<close> is skipped if and
  only if the language of the connector is not among the languages the check applies
  to. For such a language the result is the skipped one, with a message that names the
  language only: it is the same for every connector of that language and every world,
  so nothing of the connector is read and \<open>_run\<close> is not evaluated.
\<close>

theorem skipped_iff_language_not_applicable:
  "(language k \<notin> applies_to_connector_languages c \<longrightarrow>
      (\<forall>w k'. language k' = language k \<longrightarrow>
         run c w k' = Inr (Some (skip c (''Check does not apply to ''
                                         @ language_value (language k) @ '' connectors''))))) \<and>
   (run c w k = Inr (Some r) \<longrightarrow>
      (status r = SKIPPED \<longleftrightarrow> language k \<notin> applies_to_connector_languages c))"
proof (intro conjI impI allI)
  fix w' :: world and k' :: Connector
  assume "language k \<notin> applies_to_connector_languages c" and "language k' = language k"
  then show "run c w' k' = Inr (Some (skip c (''Check does not apply to ''
                @ language_value (language k) @ '' connectors'')))"
    by (simp add: run_def returns_def)
next
  assume result: "run c w k = Inr (Some r)"
  show "status r = SKIPPED \<longleftrightarrow> language k \<notin> applies_to_connector_languages c"
  proof (cases "language k \<in> applies_to_connector_languages c")
    case True
    with result have "check_run c w k = Inr (Some r)"
      by (simp add: run_def)
    then have "status r \<noteq> SKIPPED" by (rule check_run_status)
    with True show ?thesis by simp
  next
    case False
    with result have "r = skip c (''Check does not apply to ''
        @ language_value (language k) @ '' connectors'')"
      by (simp add: run_def returns_def)
    then have "status r = SKIPPED" by (simp add: skip_def)
    with False show ?thesis by simp
  qed
qed


theorem skipped_iff_language_not_applicable_witness:
  "run CheckConnectorUsesPoetry (example_world [] [] (\<lambda>n. faker JAVA None)) (faker JAVA None)
     = Inr (Some (skip CheckConnectorUsesPoetry ''Check does not apply to java connectors'')) \<and>
   status (create_check_result CheckConnectorUsesPoetry False ''pyproject.toml file is missing'')
     \<noteq> SKIPPED"
proof -
  let ?w = "example_world [] [] (\<lambda>n. faker JAVA None)"
  have java: "language (faker JAVA None) \<notin> applies_to_connector_languages CheckConnectorUsesPoetry"
    by (simp add: faker_def)
  have python: "language (faker PYTHON None) \<in> applies_to_connector_languages CheckConnectorUsesPoetry"
    by (simp add: faker_def)
  have result: "run CheckConnectorUsesPoetry ?w (faker PYTHON None)
      = Inr (Some (create_check_result CheckConnectorUsesPoetry False
                     ''pyproject.toml file is missing''))"
    by code_simp
  from skipped_iff_language_not_applicable
         [of "faker JAVA None" CheckConnectorUsesPoetry ?w
            "skip CheckConnectorUsesPoetry ''Check does not apply to java connectors''"]
       java
  have "run CheckConnectorUsesPoetry ?w (faker JAVA None)
      = Inr (Some (skip CheckConnectorUsesPoetry ''Check does not apply to java connectors''))"
    by (simp add: faker_def)
  moreover from skipped_iff_language_not_applicable
         [of "faker PYTHON None" CheckConnectorUsesPoetry ?w
            "create_check_result CheckConnectorUsesPoetry False ''pyproject.toml file is missing''"]
       python result
  have "status (create_check_result CheckConnectorUsesPoetry False
                  ''pyproject.toml file is missing'') \<noteq> SKIPPED"
    by simp
  ultimately show ?thesis by simp
qed

section \<open>The version check\<close>

text \<open>
  Claim C1. With \<open>dockerImageTag\<close> \<open>1.2.3\<close> and the manifest version \<open>1.2.4\<close> the
  version check returns a failed result, and with \<open>dockerImageTag\<close> \<open>abc\<close> a failed
  result that says the version does not follow Semantic Versioning. With the manifest
  version \<open>1.2.3\<close> it returns no passed result: \<open>_run\<close> ends without a \<open>return\<close> and
  gives \<open>None\<close>, for a Python and for a low-code connector. No input makes the check
  return a passed result.
\<close>

theorem CheckVersionFollowsSemver_never_passes:
  "(\<forall>r. run CheckVersionFollowsSemver w k = Inr (Some r) \<longrightarrow> status r = FAILED) \<and>
   run CheckVersionFollowsSemver (semver_world ''1.2.3'')
     (faker PYTHON (Some (faker_metadata ''1.2.3''))) = Inr None \<and>
   run CheckVersionFollowsSemver (semver_world ''1.2.3'')
     (faker LOW_CODE (Some (faker_metadata ''1.2.3''))) = Inr None \<and>
   run CheckVersionFollowsSemver (semver_world ''1.2.4'')
     (faker PYTHON (Some (faker_metadata ''1.2.3'')))
     = returns (create_check_result CheckVersionFollowsSemver False
         ''Connector version in metadata.yaml is 1.2.3, but version in pyproject.toml is 1.2.4. These two files have to be consistent'') \<and>
   run CheckVersionFollowsSemver (semver_world ''1.2.3'')
     (faker PYTHON (Some (faker_metadata ''abc'')))
     = returns (create_check_result CheckVersionFollowsSemver False
         ''Connector version abc does not follow Semantic Versioning'')"
proof -
  have never: "\<forall>r. run CheckVersionFollowsSemver w k = Inr (Some r) \<longrightarrow> status r = FAILED"
    using language_in_ALL_LANGUAGES [of k]
    by (auto simp: run_def dest: CheckVersionFollowsSemver_run_status)
  have same: "run CheckVersionFollowsSemver (semver_world ''1.2.3'')
      (faker PYTHON (Some (faker_metadata ''1.2.3''))) = Inr None"
    by code_simp
  have same_low_code: "run CheckVersionFollowsSemver (semver_world ''1.2.3'')
      (faker LOW_CODE (Some (faker_metadata ''1.2.3''))) = Inr None"
    by code_simp
  have differ: "run CheckVersionFollowsSemver (semver_world ''1.2.4'')
      (faker PYTHON (Some (faker_metadata ''1.2.3'')))
      = returns (create_check_result CheckVersionFollowsSemver False
          ''Connector version in metadata.yaml is 1.2.3, but version in pyproject.toml is 1.2.4. These two files have to be consistent'')"
    by code_simp
  have invalid: "run CheckVersionFollowsSemver (semver_world ''1.2.3'')
      (faker PYTHON (Some (faker_metadata ''abc'')))
      = returns (create_check_result CheckVersionFollowsSemver False
          ''Connector version abc does not follow Semantic Versioning'')"
    by code_simp
  from never same same_low_code differ invalid show ?thesis by blast
qed

theorem CheckVersionFollowsSemver_never_passes_witness:
  "\<exists>r. run CheckVersionFollowsSemver (semver_world ''1.2.4'')
          (faker PYTHON (Some (faker_metadata ''1.2.3''))) = Inr (Some r) \<and> status r = FAILED"
  using CheckVersionFollowsSemver_never_passes
    [of "semver_world ''1.2.4''" "faker PYTHON (Some (faker_metadata ''1.2.3''))"]
  by (simp add: returns_def)

section \<open>Checks that raise\<close>

text \<open>
  Claim C2. The checks are not total. The documentation-structure check opens the
  documentation file without a test that it is there and reads the first line without
  a test that there is one: it raises \<open>TypeError\<close> for a connector without a
  documentation path, \<open>FileNotFoundError\<close> where the file is missing and \<open>IndexError\<close>
  on an empty file. The license check calls \<open>upper\<close> on the license it reads from the
  metadata and raises \<open>AttributeError\<close> where the metadata has no license. The
  migration-guide check reads the first line of the guide and raises \<open>IndexError\<close> on
  an empty guide. In each case no result is returned.
\<close>

theorem checks_raise_on_missing_input:
  "(documentation_file_path k = None
      \<longrightarrow> run CheckDocumentationStructure w k = Inl TypeError) \<and>
   (documentation_file_path k = Some p \<and> map_of (files w) p = None
      \<longrightarrow> run CheckDocumentationStructure w k = Inl FileNotFoundError) \<and>
   (documentation_file_path k = Some p \<and> map_of (files w) p = Some (TextFile [])
      \<longrightarrow> run CheckDocumentationStructure w k = Inl IndexError) \<and>
   (metadata k = Some md \<and> md \<noteq> [] \<and> map_of md ''license'' = None
      \<longrightarrow> run CheckConnectorLicense w k = Inl AttributeError) \<and>
   (truthy (get (metadata k) [''releases'', ''breakingChanges''] YNull) \<and>
    migration_guide_file_path k = Some g \<and> map_of (files w) g = Some (TextFile [])
      \<longrightarrow> run CheckMigrationGuide w k = Inl IndexError)"
proof -
  have applies: "language k \<in> applies_to_connector_languages CheckDocumentationStructure"
    "language k \<in> applies_to_connector_languages CheckConnectorLicense"
    "language k \<in> applies_to_connector_languages CheckMigrationGuide"
    using language_in_ALL_LANGUAGES [of k] by simp_all
  have no_path: "run CheckDocumentationStructure w k = Inl TypeError"
    if "documentation_file_path k = None"
    using that applies by (simp add: run_def CheckDocumentationStructure_run_def)
  have no_file: "run CheckDocumentationStructure w k = Inl FileNotFoundError"
    if "documentation_file_path k = Some p" "map_of (files w) p = None"
    using that applies by (simp add: run_def CheckDocumentationStructure_run_def read_text_def)
  have empty_file: "run CheckDocumentationStructure w k = Inl IndexError"
    if "documentation_file_path k = Some p" "map_of (files w) p = Some (TextFile [])"
    using that applies by (simp add: run_def CheckDocumentationStructure_run_def read_text_def)
  have no_license: "run CheckConnectorLicense w k = Inl AttributeError"
    if "metadata k = Some md" "md \<noteq> []" "map_of md ''license'' = None"
    using that applies
    by (simp add: run_def CheckConnectorLicense_run_def metadata_truthy_def get_def)
  have empty_guide: "run CheckMigrationGuide w k = Inl IndexError"
    if "truthy (get (metadata k) [''releases'', ''breakingChanges''] YNull)"
      "migration_guide_file_path k = Some g" "map_of (files w) g = Some (TextFile [])"
    using that applies
    by (simp add: run_def CheckMigrationGuide_run_def read_text_def path_exists_def)
  from no_path no_file empty_file no_license empty_guide show ?thesis by blast
qed

theorem checks_raise_on_missing_input_witness:
  "run CheckDocumentationStructure (example_world credentials [] (\<lambda>n. faker PYTHON None))
     (faker PYTHON (Some [(''name'', YStr ''Faker'')])) = Inl FileNotFoundError \<and>
   run CheckConnectorLicense (example_world credentials [] (\<lambda>n. faker PYTHON None))
     (faker PYTHON (Some [(''name'', YStr ''Faker'')])) = Inl AttributeError"
  using checks_raise_on_missing_input
    [of "faker PYTHON (Some [(''name'', YStr ''Faker'')])"
       "example_world credentials [] (\<lambda>n. faker PYTHON None)"
       faker_documentation "[(''name'', YStr ''Faker'')]" faker_migration_guide]
  by (simp add: faker_def example_world_def)

section \<open>The verdict of a run\<close>

lemma run_pairs_all:
  "\<forall>(k, c) \<in> set pairs. \<exists>r. run c w k = Inr (Some r) \<Longrightarrow>
   run_pairs w pairs acc = (acc @ map (\<lambda>(k, c). projr (run c w k)) pairs, None)"
  by (induction pairs arbitrary: acc) auto

lemma gives_result_iff: "gives_result x \<longleftrightarrow> (\<exists>r. x = Inr (Some r))"
  by (auto simp: gives_result_def split: sum.splits option.splits)

lemma failed_checks_Some:
  "failed_checks (map Some rs) = Inr (filter (\<lambda>r. status r = FAILED) rs)"
  by (induction rs) auto

text \<open>
  Claim C4, as stated, fails where a check raises: without the two credentials in the
  environment the metadata check, the first of the registry, raises \<open>ValueError\<close>. The
  run ends with that exception, so it signals a failure although no pair has produced
  a failed result, and none of the twelve pairs of the one connector has been
  evaluated to a result.
\<close>

theorem run_aborts_without_credentials:
  "cli_run (example_world [] [] (\<lambda>n. faker PYTHON None)) [''source-faker'']
     = ([], Some (ValueError ''Environment variable DOCKERHUB_USERNAME is required for this check'')) \<and>
   length (List.product
             (connector_set (example_world [] [] (\<lambda>n. faker PYTHON None)) [''source-faker''])
             ENABLED_CHECKS) = 12"
  by code_simp

text \<open>
  Claim C4, amended. Provided every pair of a requested connector and a check of the
  registry evaluates to a result (no check raises and none ends without a result), the
  run evaluates every pair of the Cartesian product, in the order of the product and
  whatever the results before, and it ends with an exception if and only if a result
  is failed; the exception is then the \<open>ClickException\<close> that counts the failed
  results. A run whose results are all passed or skipped ends without an exception.
\<close>

theorem run_fails_iff_some_check_failed:
  assumes results: "\<forall>(k, c) \<in> set (List.product (connector_set w names) registry).
                      \<exists>r. run c w k = Inr (Some r)"
  shows "fst (run_with registry w names)
           = map (\<lambda>(k, c). projr (run c w k)) (List.product (connector_set w names) registry) \<and>
         (snd (run_with registry w names) \<noteq> None \<longleftrightarrow>
            (\<exists>r. Some r \<in> set (fst (run_with registry w names)) \<and> status r = FAILED)) \<and>
         snd (run_with registry w names)
           = (let failed = filter (\<lambda>r. map_option status r = Some FAILED)
                             (fst (run_with registry w names))
              in if failed \<noteq> []
                 then Some (ClickException (str_nat (length failed) @ '' checks failed''))
                 else None)"
proof -
  let ?pairs = "List.product (connector_set w names) registry"
  define results where "results = map (\<lambda>(k, c). the (projr (run c w k))) ?pairs"
  have each: "projr (run c w k) = Some (the (projr (run c w k)))" if "(k, c) \<in> set ?pairs" for k c
    using assms that by fastforce
  then have some: "map (\<lambda>(k, c). projr (run c w k)) ?pairs = map Some results"
    by (auto simp: results_def)
  have loop: "run_pairs w ?pairs [] = (map Some results, None)"
    using run_pairs_all [OF assms, of "[]"] some by simp
  define failed where "failed = filter (\<lambda>r. status r = FAILED) results"
  have whole: "run_with registry w names =
      (map Some results,
       if failed \<noteq> [] then Some (ClickException (str_nat (length failed) @ '' checks failed''))
       else None)"
    by (simp add: run_with_def loop failed_checks_Some failed_def)
  have exists: "failed \<noteq> [] \<longleftrightarrow> (\<exists>r. Some r \<in> set (map Some results) \<and> status r = FAILED)"
    by (auto simp: filter_empty_conv failed_def)
  have count: "filter (\<lambda>r. map_option status r = Some FAILED) (map Some results) = map Some failed"
    by (simp add: failed_def filter_map comp_def)
  from whole some exists count show ?thesis
    by (auto simp: Let_def)
qed

theorem run_fails_iff_some_check_failed_witness:
  "length (fst (cli_run unpublished_world [''source-faker'', ''source-pokeapi-secure''])) = 24 \<and>
   snd (cli_run unpublished_world [''source-faker'', ''source-pokeapi-secure''])
     = Some (ClickException ''18 checks failed'') \<and>
   run_with [CheckDocumentationExists, CheckMigrationGuide] unpublished_world [''source-faker'']
     = ([Some (create_check_result CheckDocumentationExists True
                ''User facing documentation file docs/integrations/sources/faker.md exists''),
         Some (create_check_result CheckMigrationGuide True
                ''No breaking changes found. A migration guide is not required'')],
        None)"
proof -
  let ?names = "[''source-faker'', ''source-pokeapi-secure'']"
  have "list_all (\<lambda>(k, c). gives_result (run c unpublished_world k))
          (List.product (connector_set unpublished_world ?names) ENABLED_CHECKS)"
    by code_simp
  then have all: "\<forall>(k, c) \<in> set (List.product (connector_set unpublished_world ?names)
                                     ENABLED_CHECKS).
                    \<exists>r. run c unpublished_world k = Inr (Some r)"
    by (auto simp: list_all_iff gives_result_iff)
  have "list_all (\<lambda>(k, c). gives_result (run c unpublished_world k))
          (List.product (connector_set unpublished_world [''source-faker''])
             [CheckDocumentationExists, CheckMigrationGuide])"
    by code_simp
  then have two: "\<forall>(k, c) \<in> set (List.product (connector_set unpublished_world [''source-faker''])
                                     [CheckDocumentationExists, CheckMigrationGuide]).
                    \<exists>r. run c unpublished_world k = Inr (Some r)"
    by (auto simp: list_all_iff gives_result_iff)
  have pairs: "length (List.product (connector_set unpublished_world ?names) ENABLED_CHECKS) = 24"
    by code_simp
  have verdict: "snd (cli_run unpublished_world ?names) = Some (ClickException ''18 checks failed'')"
    by code_simp
  have passing: "map (\<lambda>(k, c). projr (run c unpublished_world k))
      (List.product (connector_set unpublished_world [''source-faker''])
         [CheckDocumentationExists, CheckMigrationGuide])
      = [Some (create_check_result CheckDocumentationExists True
                ''User facing documentation file docs/integrations/sources/faker.md exists''),
         Some (create_check_result CheckMigrationGuide True
                ''No breaking changes found. A migration guide is not required'')]"
    by code_simp
  from run_fails_iff_some_check_failed [OF all] pairs
  have "length (fst (cli_run unpublished_world ?names)) = 24"
    by (simp add: cli_run_def)
  moreover from run_fails_iff_some_check_failed [OF two] passing
  have "run_with [CheckDocumentationExists, CheckMigrationGuide] unpublished_world
          [''source-faker'']
        = ([Some (create_check_result CheckDocumentationExists True
                ''User facing documentation file docs/integrations/sources/faker.md exists''),
            Some (create_check_result CheckMigrationGuide True
                ''No breaking changes found. A migration guide is not required'')],
           None)"
    by (auto simp: prod_eq_iff Let_def create_check_result_def)
  ultimately show ?thesis using verdict by simp
qed

section \<open>The migration guide\<close>

lemma rstrip_prefix: "prefix (rstrip s) s"
proof -
  have "rev s = takeWhile is_space (rev s) @ dropWhile is_space (rev s)"
    by simp
  then have "s = rev (dropWhile is_space (rev s)) @ rev (takeWhile is_space (rev s))"
    by (metis rev_append rev_rev_ident)
  then show ?thesis
    by (metis prefixI rstrip_def)
qed

lemma rstrip_id: "s \<noteq> [] \<Longrightarrow> \<not> is_space (last s) \<Longrightarrow> rstrip s = s"
  by (cases s rule: rev_cases) (simp_all add: rstrip_def)

lemma ordered_heading_versions_filter:
  "ordered_heading_versions lines
   = map (\<lambda>l. replace (strip l) expected_version_header_start [])
       (filter (\<lambda>l. prefix expected_version_header_start (strip l)) lines)"
  by (induction lines) (simp_all add: Let_def)

lemma title_is_no_heading:
  "\<not> prefix expected_version_header_start (strip (''# '' @ t))"
proof
  assume "prefix expected_version_header_start (strip (''# '' @ t))"
  then have "prefix expected_version_header_start (lstrip (''# '' @ t))"
    using rstrip_prefix [of "lstrip (''# '' @ t)"] by (auto simp: strip_def)
  then show False
    by (simp add: lstrip_def is_space_def expected_version_header_start_def)
qed

lemma sorted_reverse_unique:
  assumes "distinct ks" and "set ks = set L" and "distinct L" and "sorted (rev L)"
  shows "sorted_reverse ks = L"
proof -
  have "sort ks = rev L"
    using assms by (intro sorted_distinct_set_unique) simp_all
  then show ?thesis by (simp add: sorted_reverse_def)
qed

lemma sorted_reverse_iff:
  assumes "distinct ks"
  shows "hs = sorted_reverse ks \<longleftrightarrow> set hs = set ks \<and> sorted_wrt (\<lambda>a b. b < a) hs"
proof
  assume "hs = sorted_reverse ks"
  moreover have "sorted_wrt (<) (sort ks)"
    using assms by (simp add: strict_sorted_iff)
  ultimately show "set hs = set ks \<and> sorted_wrt (\<lambda>a b. b < a) hs"
    by (simp add: sorted_reverse_def sorted_wrt_rev)
next
  assume hs: "set hs = set ks \<and> sorted_wrt (\<lambda>a b. b < a) hs"
  then have "sorted_wrt (<) (rev hs)"
    by (simp add: sorted_wrt_rev)
  then have "sorted (rev hs)" "distinct (rev hs)"
    by (simp_all add: strict_sorted_iff)
  then have "rev hs = sort ks"
    using hs assms by (intro sorted_distinct_set_unique) simp_all
  then show "hs = sorted_reverse ks"
    by (metis rev_rev_ident sorted_reverse_def)
qed

lemma CheckMigrationGuide_run_headings:
  assumes bc: "get (metadata k) [''releases'', ''breakingChanges''] YNull = YDict d" and "d \<noteq> []"
    and guide: "migration_guide_file_path k = Some p"
    and present: "map_of (files w) p = Some (TextFile content)"
    and lines: "splitlines (universal_newlines content)
                = (''# '' @ str_opt (name_from_metadata k) @ '' Migration Guide'') # body"
  shows "run CheckMigrationGuide w k
         = returns (if ordered_heading_versions body = sorted_reverse (map fst d)
                    then create_check_result CheckMigrationGuide True
                           ''The migration guide is correctly templated''
                    else create_check_result CheckMigrationGuide False
                           (incorrect_version_headings k
                              (map (\<lambda>v. expected_version_header_start @ v)
                                 (sorted_reverse (map fst d)))))"
proof -
  have applies: "language k \<in> applies_to_connector_languages CheckMigrationGuide"
    using language_in_ALL_LANGUAGES [of k] by simp
  have title: "ordered_heading_versions
      ((''# '' @ str_opt (name_from_metadata k) @ '' Migration Guide'') # body)
      = ordered_heading_versions body"
    using title_is_no_heading [of "str_opt (name_from_metadata k) @ '' Migration Guide''"]
    by (simp add: Let_def)
  show ?thesis
    using assms applies title
    by (auto simp: run_def CheckMigrationGuide_run_def path_exists_def read_text_def Let_def)
qed

lemma heading_line_version:
  assumes "v \<noteq> []" and "set v \<subseteq> set ''0123456789.''"
  shows "strip (expected_version_header_start @ v) = expected_version_header_start @ v"
    and "replace (expected_version_header_start @ v) expected_version_header_start [] = v"
proof -
  have "last v \<in> set ''0123456789.''"
    using assms by (meson last_in_set subsetD)
  then have "\<not> is_space (last v)"
    by (auto simp: is_space_def)
  then have "rstrip (expected_version_header_start @ v) = expected_version_header_start @ v"
    using assms(1) by (intro rstrip_id) simp_all
  moreover have "lstrip (expected_version_header_start @ v) = expected_version_header_start @ v"
    by (simp add: lstrip_def expected_version_header_start_def is_space_def)
  ultimately show "strip (expected_version_header_start @ v) = expected_version_header_start @ v"
    by (simp add: strip_def)
  have "CHR ''#'' \<notin> set v"
    using assms(2) by auto
  then have absent: "\<not> sublist expected_version_header_start v"
    by (auto simp: expected_version_header_start_def dest: set_mono_sublist)
  have "\<not> sublist expected_version_header_start ([] @ butlast expected_version_header_start)"
    by (auto simp: expected_version_header_start_def dest: sublist_length_le)
  then have "replace_from expected_version_header_start [] ([] @ expected_version_header_start @ v)
      = [] @ [] @ replace_from expected_version_header_start [] v"
    by (intro replace_from_skip) (simp_all add: expected_version_header_start_def)
  then show "replace (expected_version_header_start @ v) expected_version_header_start [] = v"
    using absent by (simp add: replace_def replace_from_absent expected_version_header_start_def)
qed

lemma ordered_heading_versions_headings:
  "\<forall>v\<in>set vs. v \<noteq> [] \<and> set v \<subseteq> set ''0123456789.'' \<Longrightarrow>
   ordered_heading_versions (map (\<lambda>v. expected_version_header_start @ v) vs) = vs"
  by (induction vs) (simp_all add: heading_line_version Let_def)


text \<open>
  Claim C5. For a connector whose breaking changes have the keys \<open>3.0.0\<close>, \<open>2.0.0\<close> and
  \<open>1.0.0\<close> (in any order of the mapping) and whose migration guide exists and starts
  with the title line, the check returns a result, and the result is passed exactly
  when the versions of the \<open>## Upgrading to\<close> headings of the guide, in the order of the
  document, are \<open>3.0.0, 2.0.0, 1.0.0\<close>; otherwise it is failed. The headings are the
  lines that start, once stripped, with \<open>## Upgrading to\<close> and a blank, and the version
  of a heading is the rest of the stripped line as the check reads it. In particular a
  guide whose headings are those of a list of versions written with digits and dots
  passes for that one list only: every permutation, omission and addition fails.
\<close>

theorem migration_guide_three_versions:
  assumes bc: "get (metadata k) [''releases'', ''breakingChanges''] YNull = YDict d"
    and keys: "distinct (map fst d)" "set (map fst d) = {''3.0.0'', ''2.0.0'', ''1.0.0''}"
    and guide: "migration_guide_file_path k = Some p"
    and present: "map_of (files w) p = Some (TextFile content)"
    and lines: "splitlines (universal_newlines content)
                = (''# '' @ str_opt (name_from_metadata k) @ '' Migration Guide'') # body"
  shows "(\<exists>m. run CheckMigrationGuide w k
              = returns (create_check_result CheckMigrationGuide
                   (map (\<lambda>l. replace (strip l) ''## Upgrading to '' [])
                      (filter (\<lambda>l. prefix ''## Upgrading to '' (strip l)) body)
                    = [''3.0.0'', ''2.0.0'', ''1.0.0'']) m)) \<and>
         (\<forall>vs. (\<forall>v\<in>set vs. v \<noteq> [] \<and> set v \<subseteq> set ''0123456789.'') \<and>
               body = map (\<lambda>v. ''## Upgrading to '' @ v) vs \<longrightarrow>
               (\<exists>m. run CheckMigrationGuide w k
                     = returns (create_check_result CheckMigrationGuide
                                  (vs = [''3.0.0'', ''2.0.0'', ''1.0.0'']) m)))"
proof -
  have nonempty: "d \<noteq> []"
  proof
    assume "d = []"
    with keys(2) show False by simp
  qed
  have same: "set (map fst d) = set [''3.0.0'', ''2.0.0'', ''1.0.0'']"
    using keys(2) by simp
  have "distinct [''3.0.0'', ''2.0.0'', ''1.0.0'']" "sorted (rev [''3.0.0'', ''2.0.0'', ''1.0.0''])"
    by simp_all
  with keys(1) same have "sorted_reverse (map fst d) = [''3.0.0'', ''2.0.0'', ''1.0.0'']"
    by (rule sorted_reverse_unique)
  with CheckMigrationGuide_run_headings [OF bc nonempty guide present lines]
  have result: "\<exists>m. run CheckMigrationGuide w k
      = returns (create_check_result CheckMigrationGuide
                   (ordered_heading_versions body = [''3.0.0'', ''2.0.0'', ''1.0.0'']) m)"
    by (cases "ordered_heading_versions body = [''3.0.0'', ''2.0.0'', ''1.0.0'']") auto
  then have first: "\<exists>m. run CheckMigrationGuide w k
      = returns (create_check_result CheckMigrationGuide
           (map (\<lambda>l. replace (strip l) ''## Upgrading to '' [])
              (filter (\<lambda>l. prefix ''## Upgrading to '' (strip l)) body)
            = [''3.0.0'', ''2.0.0'', ''1.0.0'']) m)"
    by (simp add: ordered_heading_versions_filter expected_version_header_start_def)
  have second: "\<exists>m. run CheckMigrationGuide w k
      = returns (create_check_result CheckMigrationGuide
                   (vs = [''3.0.0'', ''2.0.0'', ''1.0.0'']) m)"
    if "\<forall>v\<in>set vs. v \<noteq> [] \<and> set v \<subseteq> set ''0123456789.''"
      and "body = map (\<lambda>v. ''## Upgrading to '' @ v) vs" for vs
    using result ordered_heading_versions_headings [OF that(1)] that(2)
    by (simp add: expected_version_header_start_def)
  from first second show ?thesis by blast
qed

theorem migration_guide_three_versions_witness:
  "(\<exists>m. run CheckMigrationGuide (guide_world [''3.0.0'', ''2.0.0'', ''1.0.0''])
          (faker PYTHON (Some (breaking_metadata [''1.0.0'', ''3.0.0'', ''2.0.0''])))
        = returns (create_check_result CheckMigrationGuide True m)) \<and>
   (\<exists>m. run CheckMigrationGuide (guide_world [''3.0.0'', ''1.0.0'', ''2.0.0''])
          (faker PYTHON (Some (breaking_metadata [''1.0.0'', ''3.0.0'', ''2.0.0''])))
        = returns (create_check_result CheckMigrationGuide False m))"
proof -
  let ?k = "faker PYTHON (Some (breaking_metadata [''1.0.0'', ''3.0.0'', ''2.0.0'']))"
  let ?d = "map (\<lambda>v. (v, YDict [(''message'', YStr ''Read the guide.'')]))
              [''1.0.0'', ''3.0.0'', ''2.0.0'']"
  have bc: "get (metadata ?k) [''releases'', ''breakingChanges''] YNull = YDict ?d"
    by code_simp
  have keys: "distinct (map fst ?d)" "set (map fst ?d) = {''3.0.0'', ''2.0.0'', ''1.0.0''}"
    by (simp_all add: insert_commute)
  have guide: "migration_guide_file_path ?k = Some faker_migration_guide"
    by (simp add: faker_def)
  have present: "map_of (files (guide_world vs)) faker_migration_guide
      = Some (TextFile (migration_guide_text vs))" for vs
    by (simp add: guide_world_def example_world_def)
  have good: "splitlines (universal_newlines (migration_guide_text [''3.0.0'', ''2.0.0'', ''1.0.0'']))
      = (''# '' @ str_opt (name_from_metadata ?k) @ '' Migration Guide'')
        # [[], ''## Upgrading to 3.0.0'', [], ''Follow the steps below.'',
           [], ''## Upgrading to 2.0.0'', [], ''Follow the steps below.'',
           [], ''## Upgrading to 1.0.0'', [], ''Follow the steps below.'']"
    by code_simp
  have bad: "splitlines (universal_newlines (migration_guide_text [''3.0.0'', ''1.0.0'', ''2.0.0'']))
      = (''# '' @ str_opt (name_from_metadata ?k) @ '' Migration Guide'')
        # [[], ''## Upgrading to 3.0.0'', [], ''Follow the steps below.'',
           [], ''## Upgrading to 1.0.0'', [], ''Follow the steps below.'',
           [], ''## Upgrading to 2.0.0'', [], ''Follow the steps below.'']"
    by code_simp
  have strips: "strip [] = []" "strip ''Follow the steps below.'' = ''Follow the steps below.''"
    "strip ''## Upgrading to 3.0.0'' = ''## Upgrading to 3.0.0''"
    "strip ''## Upgrading to 2.0.0'' = ''## Upgrading to 2.0.0''"
    "strip ''## Upgrading to 1.0.0'' = ''## Upgrading to 1.0.0''"
    "replace ''## Upgrading to 3.0.0'' ''## Upgrading to '' [] = ''3.0.0''"
    "replace ''## Upgrading to 2.0.0'' ''## Upgrading to '' [] = ''2.0.0''"
    "replace ''## Upgrading to 1.0.0'' ''## Upgrading to '' [] = ''1.0.0''"
    by code_simp+
  from migration_guide_three_versions [OF bc keys guide present good]
  have "\<exists>m. run CheckMigrationGuide (guide_world [''3.0.0'', ''2.0.0'', ''1.0.0'']) ?k
           = returns (create_check_result CheckMigrationGuide True m)"
    by (simp add: strips)
  moreover from migration_guide_three_versions [OF bc keys guide present bad]
  have "\<exists>m. run CheckMigrationGuide (guide_world [''3.0.0'', ''1.0.0'', ''2.0.0'']) ?k
           = returns (create_check_result CheckMigrationGuide False m)"
    by (simp add: strips)
  ultimately show ?thesis by simp
qed

text \<open>
  Claim C9. The order the check expects is that of the keys of the breaking changes
  sorted as strings, descending: for every mapping of breaking changes, and a guide
  that exists and starts with the title line, the result is passed exactly when the
  versions of the headings are the keys of the mapping, each once, in strictly
  descending lexicographic order. As a string \<open>10.0.0\<close> is less than \<open>9.0.0\<close>, so with
  these two keys the one sequence of headings that passes has \<open>9.0.0\<close> before \<open>10.0.0\<close>.
\<close>

theorem migration_guide_lexicographic_order:
  assumes bc: "get (metadata k) [''releases'', ''breakingChanges''] YNull = YDict d"
    and nonempty: "d \<noteq> []"
    and keys: "distinct (map fst d)"
    and guide: "migration_guide_file_path k = Some p"
    and present: "map_of (files w) p = Some (TextFile content)"
    and lines: "splitlines (universal_newlines content)
                = (''# '' @ str_opt (name_from_metadata k) @ '' Migration Guide'') # body"
    and headings: "hs = map (\<lambda>l. replace (strip l) ''## Upgrading to '' [])
                          (filter (\<lambda>l. prefix ''## Upgrading to '' (strip l)) body)"
  shows "(\<exists>m. run CheckMigrationGuide w k
              = returns (create_check_result CheckMigrationGuide
                   (set hs = set (map fst d) \<and> sorted_wrt (\<lambda>a b. b < a) hs) m)) \<and>
         (set (map fst d) = {''10.0.0'', ''9.0.0''} \<longrightarrow>
            (\<exists>m. run CheckMigrationGuide w k
                  = returns (create_check_result CheckMigrationGuide
                               (hs = [''9.0.0'', ''10.0.0'']) m))) \<and>
         ''10.0.0'' < ''9.0.0''"
proof -
  have hs: "hs = ordered_heading_versions body"
    by (simp add: headings ordered_heading_versions_filter expected_version_header_start_def)
  from CheckMigrationGuide_run_headings [OF bc nonempty guide present lines]
  have result: "\<exists>m. run CheckMigrationGuide w k
      = returns (create_check_result CheckMigrationGuide (hs = sorted_reverse (map fst d)) m)"
    by (cases "hs = sorted_reverse (map fst d)") (auto simp: hs)
  then have first: "\<exists>m. run CheckMigrationGuide w k
      = returns (create_check_result CheckMigrationGuide
                   (set hs = set (map fst d) \<and> sorted_wrt (\<lambda>a b. b < a) hs) m)"
    using sorted_reverse_iff [OF keys, of hs] by simp
  have second: "\<exists>m. run CheckMigrationGuide w k
      = returns (create_check_result CheckMigrationGuide (hs = [''9.0.0'', ''10.0.0'']) m)"
    if "set (map fst d) = {''10.0.0'', ''9.0.0''}"
  proof -
    have same: "set (map fst d) = set [''9.0.0'', ''10.0.0'']"
      using that by (simp add: insert_commute)
    have "distinct [''9.0.0'', ''10.0.0'']" "sorted (rev [''9.0.0'', ''10.0.0''])"
      by simp_all
    with keys same have "sorted_reverse (map fst d) = [''9.0.0'', ''10.0.0'']"
      by (rule sorted_reverse_unique)
    with result show ?thesis by simp
  qed
  have third: "''10.0.0'' < ''9.0.0''"
    by simp
  from first second third show ?thesis by blast
qed

theorem migration_guide_lexicographic_order_witness:
  "(\<exists>m. run CheckMigrationGuide (guide_world [''9.0.0'', ''10.0.0''])
          (faker PYTHON (Some (breaking_metadata [''9.0.0'', ''10.0.0''])))
        = returns (create_check_result CheckMigrationGuide True m)) \<and>
   (\<exists>m. run CheckMigrationGuide (guide_world [''10.0.0'', ''9.0.0''])
          (faker PYTHON (Some (breaking_metadata [''9.0.0'', ''10.0.0''])))
        = returns (create_check_result CheckMigrationGuide False m))"
proof -
  let ?k = "faker PYTHON (Some (breaking_metadata [''9.0.0'', ''10.0.0'']))"
  let ?d = "map (\<lambda>v. (v, YDict [(''message'', YStr ''Read the guide.'')])) [''9.0.0'', ''10.0.0'']"
  have bc: "get (metadata ?k) [''releases'', ''breakingChanges''] YNull = YDict ?d"
    by code_simp
  have nonempty: "?d \<noteq> []" by simp
  have keys: "distinct (map fst ?d)" by simp
  have these: "set (map fst ?d) = {''10.0.0'', ''9.0.0''}"
    by (simp add: insert_commute)
  have guide: "migration_guide_file_path ?k = Some faker_migration_guide"
    by (simp add: faker_def)
  have present: "map_of (files (guide_world vs)) faker_migration_guide
      = Some (TextFile (migration_guide_text vs))" for vs
    by (simp add: guide_world_def example_world_def)
  have good: "splitlines (universal_newlines (migration_guide_text [''9.0.0'', ''10.0.0'']))
      = (''# '' @ str_opt (name_from_metadata ?k) @ '' Migration Guide'')
        # [[], ''## Upgrading to 9.0.0'', [], ''Follow the steps below.'',
           [], ''## Upgrading to 10.0.0'', [], ''Follow the steps below.'']"
    by code_simp
  have bad: "splitlines (universal_newlines (migration_guide_text [''10.0.0'', ''9.0.0'']))
      = (''# '' @ str_opt (name_from_metadata ?k) @ '' Migration Guide'')
        # [[], ''## Upgrading to 10.0.0'', [], ''Follow the steps below.'',
           [], ''## Upgrading to 9.0.0'', [], ''Follow the steps below.'']"
    by code_simp
  have strips: "strip [] = []" "strip ''Follow the steps below.'' = ''Follow the steps below.''"
    "strip ''## Upgrading to 9.0.0'' = ''## Upgrading to 9.0.0''"
    "strip ''## Upgrading to 10.0.0'' = ''## Upgrading to 10.0.0''"
    "replace ''## Upgrading to 9.0.0'' ''## Upgrading to '' [] = ''9.0.0''"
    "replace ''## Upgrading to 10.0.0'' ''## Upgrading to '' [] = ''10.0.0''"
    by code_simp+
  from migration_guide_lexicographic_order [OF bc nonempty keys guide present good refl] these
  have "\<exists>m. run CheckMigrationGuide (guide_world [''9.0.0'', ''10.0.0'']) ?k
           = returns (create_check_result CheckMigrationGuide True m)"
    by (simp add: strips)
  moreover
  from migration_guide_lexicographic_order [OF bc nonempty keys guide present bad refl] these
  have "\<exists>m. run CheckMigrationGuide (guide_world [''10.0.0'', ''9.0.0'']) ?k
           = returns (create_check_result CheckMigrationGuide False m)"
    by (simp add: strips)
  ultimately show ?thesis by simp
qed

end
